theory Spec2Isabelle
  imports Complex_Main
begin

section \<open>Python values and built-in operations\<close>

text \<open>
  Exceptions are values. \<open>Exception msg\<close> is an exception raised by a \<open>raise\<close> statement
  of the source; the other constructors are the errors that the interpreter or a library
  raises when an operation is applied to a value it does not accept.
\<close>

datatype error =
    IndexError
  | KeyError
  | TypeError
  | AttributeError
  | ValueError
  | ZeroDivisionError
  | JSONDecodeError
  | XMLSyntaxError
  | Exception string

definition bind_err :: "error + 'a \<Rightarrow> ('a \<Rightarrow> error + 'b) \<Rightarrow> error + 'b" where
  "bind_err m f = (case m of Inl e \<Rightarrow> Inl e | Inr x \<Rightarrow> f x)"

text \<open>A loop that builds a list and stops at the first exception.\<close>

fun map_err :: "('a \<Rightarrow> error + 'b) \<Rightarrow> 'a list \<Rightarrow> error + 'b list" where
  "map_err f [] = Inr []"
| "map_err f (x # xs) =
     (case f x of
        Inl e \<Rightarrow> Inl e
      | Inr y \<Rightarrow> (case map_err f xs of Inl e \<Rightarrow> Inl e | Inr ys \<Rightarrow> Inr (y # ys)))"

text \<open>
  Numbers. Python's \<open>int\<close> is \<open>int\<close>. A Python or numpy float is represented by the
  rational number it denotes: the rounding operations that the source applies explicitly
  (\<open>int()\<close>, \<open>round()\<close>, the format \<open>.1f\<close>) are modelled, the representation error of
  binary floating point is not.
\<close>

type_synonym point = "rat \<times> rat"

definition py_trunc :: "rat \<Rightarrow> int" where
  \<comment> \<open>\<open>int(x)\<close> on a float: towards zero.\<close>
  "py_trunc x = (if 0 \<le> x then \<lfloor>x\<rfloor> else \<lceil>x\<rceil>)"

definition py_round :: "rat \<Rightarrow> int" where
  \<comment> \<open>\<open>round(x)\<close> on a float: to the nearest integer, a tie to the even one.\<close>
  "py_round x =
     (let f = \<lfloor>x\<rfloor>; d = x - of_int f
      in if d < 1 / 2 then f else if 1 / 2 < d then f + 1 else if even f then f else f + 1)"

subsection \<open>Strings\<close>

text \<open>
  A string is a list of characters with codes below 256. \<open>is_space\<close> is the whitespace of
  \<open>str.split()\<close> and \<open>str.strip()\<close> in that range, \<open>is_digit\<close> the class \<open>\d\<close>.
\<close>

definition is_space :: "char \<Rightarrow> bool" where
  "is_space c = (let n = (of_char c :: nat)
                 in (9 \<le> n \<and> n \<le> 13) \<or> (28 \<le> n \<and> n \<le> 32) \<or> n = 133 \<or> n = 160)"

definition is_digit :: "char \<Rightarrow> bool" where
  "is_digit c = (let n = (of_char c :: nat) in 48 \<le> n \<and> n \<le> 57)"

definition digit_val :: "char \<Rightarrow> nat" where
  "digit_val c = of_char c - 48"

definition digit_char :: "nat \<Rightarrow> char" where
  "digit_char d = char_of (48 + d)"

text \<open>The value of a string of decimal digits, most significant digit first.\<close>

definition nat_of_digits :: "string \<Rightarrow> nat" where
  "nat_of_digits ds = foldl (\<lambda>n c. 10 * n + digit_val c) 0 ds"

text \<open>\<open>str(n)\<close> for an integer \<open>n\<close>.\<close>

function show_nat :: "nat \<Rightarrow> string" where
  "show_nat n = (if n < 10 then [digit_char n] else show_nat (n div 10) @ [digit_char (n mod 10)])"
  by pat_completeness auto
termination
  by (relation "measure id") auto

declare show_nat.simps [simp del]

definition show_int :: "int \<Rightarrow> string" where
  "show_int i = (if i < 0 then CHR ''-'' # show_nat (nat (- i)) else show_nat (nat i))"

text \<open>\<open>s.strip()\<close>.\<close>

definition strip :: "string \<Rightarrow> string" where
  "strip s = rev (dropWhile is_space (rev (dropWhile is_space s)))"

text \<open>\<open>s.split()\<close>: the maximal runs of non-whitespace characters.\<close>

fun split_words :: "string \<Rightarrow> string \<Rightarrow> string list" where
  "split_words cur [] = (if cur = [] then [] else [cur])"
| "split_words cur (c # cs) =
     (if is_space c then (if cur = [] then split_words [] cs else cur # split_words [] cs)
      else split_words (cur @ [c]) cs)"

definition split :: "string \<Rightarrow> string list" where
  "split s = split_words [] s"

text \<open>\<open>s.split(sep)\<close> for a separator of one character: never empty, \<open>''.split(sep) = ['']\<close>.\<close>

fun split_on :: "char \<Rightarrow> string \<Rightarrow> string list" where
  "split_on sep [] = [[]]"
| "split_on sep (c # cs) =
     (if c = sep then [] # split_on sep cs
      else (c # hd (split_on sep cs)) # tl (split_on sep cs))"

text \<open>\<open>sep.join(parts)\<close>.\<close>

fun join :: "string \<Rightarrow> string list \<Rightarrow> string" where
  "join sep [] = []"
| "join sep [p] = p"
| "join sep (p # q # ps) = p @ sep @ join sep (q # ps)"

text \<open>\<open>sub in s\<close> for strings.\<close>

fun starts_with :: "string \<Rightarrow> string \<Rightarrow> bool" where
  "starts_with s [] = True"
| "starts_with [] (c # sub) = False"
| "starts_with (d # s) (c # sub) = (d = c \<and> starts_with s sub)"

fun contains :: "string \<Rightarrow> string \<Rightarrow> bool" where
  "contains [] sub = (sub = [])"
| "contains (c # s) sub = (starts_with (c # s) sub \<or> contains s sub)"

text \<open>\<open>re.findall("\d+", s)\<close>: the maximal runs of digits, in order.\<close>

fun digit_runs :: "string \<Rightarrow> string \<Rightarrow> string list" where
  "digit_runs cur [] = (if cur = [] then [] else [cur])"
| "digit_runs cur (c # cs) =
     (if is_digit c then digit_runs (cur @ [c]) cs
      else if cur = [] then digit_runs [] cs else cur # digit_runs [] cs)"

definition findall_digits :: "string \<Rightarrow> string list" where
  "findall_digits s = digit_runs [] s"

text \<open>
  \<open>int(s)\<close> and \<open>float(s)\<close> on strings, for plain decimal numerals: optional surrounding
  whitespace, an optional sign, digits, and for \<open>float\<close> an optional fraction. Other
  spellings that Python also accepts (digit separators \<open>_\<close>, exponents, \<open>inf\<close>, \<open>nan\<close>)
  are not part of the embedding; no statement below depends on them.
\<close>

definition split_sign :: "string \<Rightarrow> bool \<times> string" where
  "split_sign s =
     (case s of
        [] \<Rightarrow> (False, [])
      | c # r \<Rightarrow> if c = CHR ''-'' then (True, r) else if c = CHR ''+'' then (False, r) else (False, s))"

definition py_int :: "string \<Rightarrow> error + int" where
  "py_int s =
     (let (neg, ds) = split_sign (strip s)
      in if ds \<noteq> [] \<and> list_all is_digit ds
         then Inr (if neg then - int (nat_of_digits ds) else int (nat_of_digits ds))
         else Inl ValueError)"

definition py_float :: "string \<Rightarrow> error + rat" where
  "py_float s =
     (let (neg, u) = split_sign (strip s);
          ip = takeWhile is_digit u;
          rest = dropWhile is_digit u;
          fp = (case rest of [] \<Rightarrow> [] | c # r \<Rightarrow> r);
          v = of_nat (nat_of_digits ip) + of_nat (nat_of_digits fp) / 10 ^ length fp
      in if (rest = [] \<or> hd rest = CHR ''.'') \<and> list_all is_digit fp \<and> (ip \<noteq> [] \<or> fp \<noteq> [])
         then Inr (if neg then - v else v)
         else Inl ValueError)"

text \<open>
  \<open>json.loads(s)\<close> restricted to what a height annotation holds: an array of numbers
  without exponent. Every other text is reported as \<open>JSONDecodeError\<close>; valid JSON of
  another shape is not part of the embedding.
\<close>

definition json_number :: "string \<Rightarrow> error + rat" where
  "json_number s =
     (let t = strip s;
          (neg, u) = (case t of [] \<Rightarrow> (False, []) | c # r \<Rightarrow> if c = CHR ''-'' then (True, r) else (False, t));
          ip = takeWhile is_digit u;
          rest = dropWhile is_digit u;
          fp = (case rest of [] \<Rightarrow> [] | c # r \<Rightarrow> r);
          v = of_nat (nat_of_digits ip) + of_nat (nat_of_digits fp) / 10 ^ length fp
      in if ip \<noteq> [] \<and> (length ip = 1 \<or> hd ip \<noteq> CHR ''0'')
            \<and> (rest = [] \<or> (hd rest = CHR ''.'' \<and> fp \<noteq> [] \<and> list_all is_digit fp))
         then Inr (if neg then - v else v)
         else Inl JSONDecodeError)"

definition json_loads :: "string \<Rightarrow> error + rat list" where
  "json_loads s =
     (let t = strip s
      in if length t < 2 \<or> hd t \<noteq> CHR ''['' \<or> last t \<noteq> CHR '']'' then Inl JSONDecodeError
         else let inner = butlast (tl t)
              in if strip inner = [] then Inr []
                 else map_err json_number (split_on CHR '','' inner))"

text \<open>
  The format \<open>{:.1f}\<close>: one digit after the point, rounded to the nearest tenth; the sign
  is that of the number.
\<close>

definition format_1f :: "rat \<Rightarrow> string" where
  "format_1f x =
     (let t = nat \<bar>py_round (x * 10)\<bar>
      in (if x < 0 then ''-'' else '''') @ show_nat (t div 10) @ ''.'' @ show_nat (t mod 10))"

text \<open>\<open>"{},{}".format(int(coord[0]), int(coord[1]))\<close> for a point.\<close>

definition format_point :: "point \<Rightarrow> string" where
  "format_point coord = show_int (py_trunc (fst coord)) @ '','' @ show_int (py_trunc (snd coord))"

definition format_points :: "point list \<Rightarrow> string" where
  "format_points coords = join '' '' (map format_point coords)"


section \<open>Element trees\<close>

text \<open>
  An element as \<open>lxml\<close> presents it: the tag (\<open>{namespace}name\<close> for a qualified name),
  the attributes, the text before the first child (\<open>None\<close> when there is none) and the
  children in document order.
\<close>

datatype xml = Element (tag: string) (attrib: "(string \<times> string) list") (elem_text: "string option")
                       (children: "xml list")

definition attrib_get :: "xml \<Rightarrow> string \<Rightarrow> string option" where
  \<comment> \<open>\<open>elem.get(key)\<close>, and the test \<open>key in elem.attrib\<close>.\<close>
  "attrib_get elem key = map_of (attrib elem) key"

definition attrib_item :: "xml \<Rightarrow> string \<Rightarrow> error + string" where
  \<comment> \<open>\<open>elem.attrib[key]\<close>.\<close>
  "attrib_item elem key = (case attrib_get elem key of None \<Rightarrow> Inl KeyError | Some v \<Rightarrow> Inr v)"

definition findall :: "xml \<Rightarrow> string \<Rightarrow> xml list" where
  \<comment> \<open>\<open>elem.findall(tag)\<close> with a plain tag: the children with that tag.\<close>
  "findall elem t = filter (\<lambda>c. tag c = t) (children elem)"

definition find :: "xml \<Rightarrow> string \<Rightarrow> xml option" where
  \<comment> \<open>\<open>elem.find(tag)\<close>: the first such child.\<close>
  "find elem t = (case findall elem t of [] \<Rightarrow> None | c # _ \<Rightarrow> Some c)"

text \<open>\<open>elem.iter(tag)\<close>: the element itself and its descendants, in document order.\<close>

fun descendants :: "xml \<Rightarrow> xml list" where
  "descendants (Element t a x cs) = Element t a x cs # concat (map descendants cs)"

definition iter :: "xml \<Rightarrow> string \<Rightarrow> xml list" where
  "iter elem t = filter (\<lambda>c. tag c = t) (descendants elem)"

definition first_item :: "'a list \<Rightarrow> error + 'a" where
  \<comment> \<open>\<open>xs[0]\<close>.\<close>
  "first_item xs = (case xs of [] \<Rightarrow> Inl IndexError | x # _ \<Rightarrow> Inr x)"

text \<open>
  \<open>element_schema\<close>: the namespace of a qualified tag in braces. For a tag without
  namespace the source evaluates \<open>'{' + None + '}'\<close>, a \<open>TypeError\<close>.
\<close>

definition element_schema :: "xml \<Rightarrow> error + string" where
  "element_schema elem =
     (case tag elem of
        [] \<Rightarrow> Inl IndexError
      | c # r \<Rightarrow> if c = CHR ''{'' then Inr (''{'' @ takeWhile (\<lambda>d. d \<noteq> CHR ''}'') r @ ''}'')
                 else Inl TypeError)"


section \<open>The layout model\<close>

text \<open>
  The value stored for a line in a logits snapshot: the sparse matrix, given by its rows
  with 0 for an entry that is not stored. The table of alphabets, which the snapshot
  holds under its reserved key, is a value of the same dictionary.
\<close>

datatype snap_value =
    Matrix "rat list list"
  | CharTable "(string \<times> string option) list"

text \<open>
  \<open>TextLine\<close>, \<open>RegionLayout\<close> and \<open>PageLayout\<close>. A field that may hold \<open>None\<close> is an
  option. The field \<open>crop\<close> of a line is never read or written after construction and is
  left out. An alphabet is the sequence of its characters.
\<close>

record TextLine =
  line_id :: "string option"
  line_baseline :: "point list option"
  line_polygon :: "point list option"
  line_heights :: "rat list option"
  line_transcription :: "string option"
  line_logits :: "snap_value option"
  line_characters :: "string option"

record RegionLayout =
  region_id :: string
  region_polygon :: "point list"
  region_lines :: "TextLine list"
  region_transcription :: "string option"

record PageLayout =
  page_id :: "string option"
  page_size :: "int \<times> int"
  regions :: "RegionLayout list"

definition new_TextLine :: TextLine where
  \<comment> \<open>\<open>TextLine()\<close>\<close>
  "new_TextLine = \<lparr>line_id = None, line_baseline = None, line_polygon = None, line_heights = None,
                    line_transcription = None, line_logits = None, line_characters = None\<rparr>"

definition new_RegionLayout :: "string \<Rightarrow> point list \<Rightarrow> RegionLayout" where
  \<comment> \<open>\<open>RegionLayout(id, polygon)\<close>\<close>
  "new_RegionLayout i p = \<lparr>region_id = i, region_polygon = p, region_lines = [], region_transcription = None\<rparr>"

definition new_PageLayout :: PageLayout where
  \<comment> \<open>\<open>PageLayout()\<close>\<close>
  "new_PageLayout = \<lparr>page_id = None, page_size = (0, 0), regions = []\<rparr>"

text \<open>\<open>get_dense_logits\<close>: \<open>toarray()\<close> fails on \<open>None\<close> and on a dictionary.\<close>

definition get_dense_logits :: "TextLine \<Rightarrow> rat \<Rightarrow> error + rat list list" where
  "get_dense_logits line zero_logit_value =
     (case line_logits line of
        Some (Matrix m) \<Rightarrow> Inr (map (map (\<lambda>v. if v = 0 then zero_logit_value else v)) m)
      | _ \<Rightarrow> Inl AttributeError)"


section \<open>Label narrowing\<close>

text \<open>
  The state of the loop of \<open>narrow_label\<close>: the path (updated in place by the source),
  the label of the previous frame (\<open>None\<close> before the first frame) and the frame indices
  of the run collected so far.
\<close>

record narrow_state =
  ns_label :: "int list"
  ns_last_char :: "int option"
  ns_repeating :: "nat list"

text \<open>
  The block guarded by \<open>repeating != []\<close>, which occurs twice in the source: every frame
  of \<open>repeating\<close> is overwritten, then the first one gets \<open>last_char\<close> back. The indices in
  \<open>repeating\<close> are loop indices, hence in range. \<open>repeating\<close> is non-empty only after a
  frame has been visited, so \<open>last_char\<close> is not \<open>None\<close> when the block runs.
\<close>

definition rewrite_run :: "bool \<Rightarrow> int \<Rightarrow> int option \<Rightarrow> nat list \<Rightarrow> int list \<Rightarrow> int list" where
  "rewrite_run on_one_liberal idx_of_last last_char repeating label =
     (case repeating of
        [] \<Rightarrow> label
      | high # _ \<Rightarrow>
          (let label' = fold (\<lambda>elem l. l[elem := (if on_one_liberal then idx_of_last - 1 else idx_of_last)])
                             repeating label
           in (case last_char of Some c \<Rightarrow> label'[high := c] | None \<Rightarrow> label')))"

definition narrow_step :: "bool \<Rightarrow> int \<Rightarrow> nat \<Rightarrow> narrow_state \<Rightarrow> narrow_state" where
  "narrow_step on_one_liberal idx_of_last i s =
     (let item = ns_label s ! i;
          s1 = (if ns_last_char s = Some item \<and> ns_last_char s \<noteq> Some idx_of_last
                then s\<lparr>ns_repeating := ns_repeating s @ [i]\<rparr>
                else s\<lparr>ns_label := rewrite_run on_one_liberal idx_of_last
                                      (ns_last_char s) (ns_repeating s) (ns_label s)\<rparr>);
          s2 = (if ns_last_char s1 \<noteq> Some item
                then s1\<lparr>ns_repeating := (if item \<noteq> idx_of_last then [i] else [])\<rparr>
                else s1)
      in s2\<lparr>ns_last_char := Some item\<rparr>)"

definition narrow_label :: "int list \<Rightarrow> 'logit \<Rightarrow> int \<Rightarrow> bool \<Rightarrow> int list" where
  "narrow_label label logit idx_of_last on_one_liberal =
     (let s = fold (narrow_step on_one_liberal idx_of_last) [0..<length label]
                \<lparr>ns_label = label, ns_last_char = None, ns_repeating = []\<rparr>
      in rewrite_run on_one_liberal idx_of_last (ns_last_char s) (ns_repeating s) (ns_label s))"

text \<open>
  The specification's reading: a frame that continues a run of identical non-blank labels
  (it is not blank and equals its predecessor) is rewritten, every other frame is kept.
\<close>

definition narrowed_frame :: "int list \<Rightarrow> int \<Rightarrow> int \<Rightarrow> nat \<Rightarrow> int" where
  "narrowed_frame label blank fill i =
     (if 0 < i \<and> label ! i = label ! (i - 1) \<and> label ! i \<noteq> blank then fill else label ! i)"

definition narrow_fill :: "bool \<Rightarrow> int \<Rightarrow> int" where
  "narrow_fill on_one_liberal idx_of_last = (if on_one_liberal then idx_of_last - 1 else idx_of_last)"

text \<open>
  The specification's wording, run by run: a blank frame is kept; a non-blank frame opens a
  maximal run of frames with the same label, the first frame of the run keeps the label
  and the others get \<open>fill\<close>.
\<close>

function narrow_runs :: "int \<Rightarrow> int \<Rightarrow> int list \<Rightarrow> int list" where
  "narrow_runs blank fill [] = []"
| "narrow_runs blank fill (x # xs) =
     (if x = blank then x # narrow_runs blank fill xs
      else x # replicate (length (takeWhile (\<lambda>y. y = x) xs)) fill
             @ narrow_runs blank fill (dropWhile (\<lambda>y. y = x) xs))"
  by pat_completeness auto
termination
  by (relation "measure (\<lambda>(blank, fill, xs). length xs)")
     (auto simp: length_dropWhile_le less_Suc_eq_le)

text \<open>Auxiliary notions of the proofs: the path narrowed up to frame \<open>k\<close>, the narrowing
  with the previous label as a parameter, and the invariant of the loop after \<open>k\<close> frames
  (\<open>j\<close> is the first frame of the run being collected).\<close>

definition narrowed_upto :: "int list \<Rightarrow> int \<Rightarrow> int \<Rightarrow> nat \<Rightarrow> int list" where
  "narrowed_upto label blank fill k = map (narrowed_frame label blank fill) [0..<k] @ drop k label"

fun narrow_after :: "int \<Rightarrow> int \<Rightarrow> int option \<Rightarrow> int list \<Rightarrow> int list" where
  "narrow_after blank fill prev [] = []"
| "narrow_after blank fill prev (x # xs) =
     (if prev = Some x \<and> x \<noteq> blank then fill else x) # narrow_after blank fill (Some x) xs"

definition narrow_inv :: "int list \<Rightarrow> bool \<Rightarrow> int \<Rightarrow> nat \<Rightarrow> nat \<Rightarrow> bool" where
  "narrow_inv label lib blank k j \<longleftrightarrow>
     j \<le> k
     \<and> fold (narrow_step lib blank) [0..<k] \<lparr>ns_label = label, ns_last_char = None, ns_repeating = []\<rparr>
          = \<lparr>ns_label = narrowed_upto label blank (narrow_fill lib blank) j,
             ns_last_char = (if k = 0 then None else Some (label ! (k - 1))),
             ns_repeating = [j..<k]\<rparr>
     \<and> (\<forall>i. j \<le> i \<and> i < k \<longrightarrow> label ! i = label ! (k - 1) \<and> label ! i \<noteq> blank)
     \<and> (j < k \<longrightarrow> j = 0 \<or> label ! (j - 1) \<noteq> label ! j)
     \<and> (j = k \<longrightarrow> k = 0 \<or> label ! (k - 1) = blank)"


section \<open>Word and gap boundary walk\<close>

text \<open>
  The variables of the loop over the words of a line in \<open>to_altoxml_string\<close>. All are
  Python integers; \<open>local_letter_counter - global_letter_counter\<close> may be negative.
\<close>

record walk_state =
  local_letter_counter :: int
  global_letter_counter :: int
  string_width :: int
  string_hpos :: int
  end_of_space :: int
  final :: bool
  last_flag :: bool

text \<open>
  The loop \<open>for a, ali in enumerate(aligned)\<close> from frame \<open>a\<close> on. \<open>blank\<close> is
  \<open>len(chars)\<close>. The \<open>break\<close> is the branch without a recursive call.
\<close>

fun scan_aligned :: "int \<Rightarrow> int \<Rightarrow> int \<Rightarrow> int list \<Rightarrow> walk_state \<Rightarrow> walk_state" where
  "scan_aligned blank word_lenght a [] s = s"
| "scan_aligned blank word_lenght a (ali # rest) s =
     (if ali \<noteq> blank then
        (if local_letter_counter s > global_letter_counter s then
           (if final s then
              s\<lparr>end_of_space := 4 * a,
                global_letter_counter := local_letter_counter s,
                last_flag := False\<rparr>
            else
              scan_aligned blank word_lenght (a + 1) rest
                ((if local_letter_counter s - global_letter_counter s = word_lenght
                  then s\<lparr>string_width := 4 * a - string_hpos s, final := True\<rparr>
                  else s)
                 \<lparr>local_letter_counter := local_letter_counter s + 1\<rparr>))
         else
           scan_aligned blank word_lenght (a + 1) rest
             ((if local_letter_counter s - global_letter_counter s = 0
               then s\<lparr>string_hpos := 4 * a\<rparr>
               else s)
              \<lparr>local_letter_counter := local_letter_counter s + 1\<rparr>))
      else scan_aligned blank word_lenght (a + 1) rest s)"

text \<open>
  One iteration of the loop over the words, up to and including \<open>if last: ...\<close>: the
  variables are initialised, the path is scanned from frame 0, and a word after which
  no further non-blank frame was found extends to the end of the path.
\<close>

definition walk_word :: "int \<Rightarrow> int list \<Rightarrow> string \<Rightarrow> int \<Rightarrow> walk_state" where
  "walk_word blank aligned word global =
     (let s = scan_aligned blank (int (length word)) 0 aligned
                \<lparr>local_letter_counter = 0, global_letter_counter = global,
                 string_width = 0, string_hpos = 0, end_of_space = 0,
                 final = False, last_flag = True\<rparr>
      in if last_flag s then s\<lparr>string_width := 4 * int (length aligned) - string_hpos s\<rparr> else s)"

text \<open>The indices of the non-blank frames of a path whose first frame has index \<open>a\<close>.\<close>

fun nonblank_frames :: "int \<Rightarrow> int \<Rightarrow> int list \<Rightarrow> int list" where
  "nonblank_frames blank a [] = []"
| "nonblank_frames blank a (ali # rest) =
     (if ali \<noteq> blank then a # nonblank_frames blank (a + 1) rest
      else nonblank_frames blank (a + 1) rest)"

text \<open>The loop body at the non-blank frames only (blank frames change nothing).\<close>

fun scan_frames :: "int \<Rightarrow> int list \<Rightarrow> walk_state \<Rightarrow> walk_state" where
  "scan_frames word_lenght [] s = s"
| "scan_frames word_lenght (a # rest) s =
     (if local_letter_counter s > global_letter_counter s then
        (if final s then
           s\<lparr>end_of_space := 4 * a,
             global_letter_counter := local_letter_counter s,
             last_flag := False\<rparr>
         else
           scan_frames word_lenght rest
             ((if local_letter_counter s - global_letter_counter s = word_lenght
               then s\<lparr>string_width := 4 * a - string_hpos s, final := True\<rparr>
               else s)
              \<lparr>local_letter_counter := local_letter_counter s + 1\<rparr>))
      else
        scan_frames word_lenght rest
          ((if local_letter_counter s - global_letter_counter s = 0
            then s\<lparr>string_hpos := 4 * a\<rparr>
            else s)
           \<lparr>local_letter_counter := local_letter_counter s + 1\<rparr>))"


section \<open>Reading and writing the PAGE dialect\<close>

text \<open>\<open>points_string_to_array\<close>: every item must split into exactly two numbers.\<close>

definition point_of_string :: "string \<Rightarrow> error + point" where
  "point_of_string t =
     (case split_on CHR '','' t of
        [x, y] \<Rightarrow>
          bind_err (py_float x) (\<lambda>fx.
          bind_err (py_float y) (\<lambda>fy.
          Inr (of_int (py_round fx), of_int (py_round fy))))
      | _ \<Rightarrow> Inl ValueError)"

definition points_string_to_array :: "string \<Rightarrow> error + point list" where
  "points_string_to_array coords = map_err point_of_string (split_on CHR '' '' coords)"

definition point_of_element :: "xml \<Rightarrow> error + point" where
  "point_of_element p =
     bind_err (attrib_item p ''x'') (\<lambda>x.
     bind_err (attrib_item p ''y'') (\<lambda>y.
     bind_err (py_float x) (\<lambda>fx.
     bind_err (py_float y) (\<lambda>fy.
     Inr (fx, fy)))))"

definition get_coords_form_page_xml :: "xml \<Rightarrow> string \<Rightarrow> error + point list" where
  "get_coords_form_page_xml coords_element schema =
     (case attrib_get coords_element ''points'' of
        Some pts \<Rightarrow> points_string_to_array pts
      | None \<Rightarrow> map_err point_of_element (findall coords_element (schema @ ''Point'')))"

text \<open>
  The text of the \<open>Unicode\<close> child of a \<open>TextEquiv\<close> element, \<open>''\<close> when it has no text;
  \<open>.text\<close> of a missing child is an \<open>AttributeError\<close>.
\<close>

definition unicode_text :: "xml \<Rightarrow> string \<Rightarrow> error + string" where
  "unicode_text transcription schema =
     (case find transcription (schema @ ''Unicode'') of
        None \<Rightarrow> Inl AttributeError
      | Some u \<Rightarrow> Inr (case elem_text u of None \<Rightarrow> [] | Some t \<Rightarrow> t))"

definition get_region_from_page_xml :: "xml \<Rightarrow> string \<Rightarrow> error + RegionLayout" where
  "get_region_from_page_xml region_element schema =
     (case find region_element (schema @ ''Coords'') of
        None \<Rightarrow> Inl AttributeError
      | Some coords_element \<Rightarrow>
          bind_err (get_coords_form_page_xml coords_element schema) (\<lambda>region_coords.
          bind_err (attrib_item region_element ''id'') (\<lambda>i.
          let layout_region = new_RegionLayout i region_coords
          in (case find region_element (schema @ ''TextEquiv'') of
                None \<Rightarrow> Inr layout_region
              | Some transcription \<Rightarrow>
                  bind_err (unicode_text transcription schema) (\<lambda>t.
                  Inr (layout_region\<lparr>region_transcription := Some t\<rparr>))))))"

text \<open>
  The height annotation of a line, from its attribute \<open>custom\<close>; \<open>None\<close> leaves the
  field as it was. With \<open>heights_v2\<close>, every word of the attribute that contains
  \<open>heights_v2\<close> is decoded and the last one stays. Otherwise, if the attribute contains
  \<open>heights\<close>, the runs of digits are the legacy numbers.
\<close>

definition heights_v2_word :: "string \<Rightarrow> error + rat list" where
  \<comment> \<open>\<open>json.loads(word.split(":")[1])\<close>\<close>
  "heights_v2_word word =
     (case split_on CHR '':'' word of
        a # b # _ \<Rightarrow> json_loads b
      | _ \<Rightarrow> Inl IndexError)"

fun heights_v2_words :: "string list \<Rightarrow> rat list option \<Rightarrow> error + rat list option" where
  "heights_v2_words [] h = Inr h"
| "heights_v2_words (word # ws) h =
     (if contains word ''heights_v2''
      then bind_err (heights_v2_word word) (\<lambda>v. heights_v2_words ws (Some v))
      else heights_v2_words ws h)"

definition legacy_heights :: "string \<Rightarrow> error + rat list" where
  "legacy_heights custom =
     bind_err (map_err py_float (findall_digits custom)) (\<lambda>heights_array.
       if length heights_array = 4
       then Inr [heights_array ! 0, heights_array ! 2]
       else if length heights_array = 3
       then Inr [heights_array ! 1, heights_array ! 2 - heights_array ! 0]
       else Inr heights_array)"

definition heights_from_custom :: "string \<Rightarrow> rat list option \<Rightarrow> error + rat list option" where
  "heights_from_custom custom_str h =
     (if contains custom_str ''heights_v2''
      then heights_v2_words (split custom_str) h
      else if contains custom_str ''heights''
      then bind_err (legacy_heights custom_str) (\<lambda>v. Inr (Some v))
      else Inr h)"

text \<open>The body of the loop over the \<open>TextLine\<close> elements of a region.\<close>

definition textline_from_page_xml :: "xml \<Rightarrow> string \<Rightarrow> error + TextLine" where
  "textline_from_page_xml line schema =
     bind_err (attrib_item line ''id'') (\<lambda>i.
     let l0 = new_TextLine\<lparr>line_id := Some i\<rparr>
     in bind_err (case attrib_get line ''custom'' of
                    None \<Rightarrow> Inr None
                  | Some custom_str \<Rightarrow> heights_from_custom custom_str None) (\<lambda>h.
        let l1 = l0\<lparr>line_heights := h\<rparr>
        in bind_err (case find line (schema @ ''Baseline'') of
                       None \<Rightarrow> Inr None
                     | Some baseline \<Rightarrow>
                         bind_err (get_coords_form_page_xml baseline schema) (\<lambda>c. Inr (Some c))) (\<lambda>b.
           let l2 = l1\<lparr>line_baseline := b\<rparr>
           in bind_err (case find line (schema @ ''Coords'') of
                          None \<Rightarrow> Inr None
                        | Some textline \<Rightarrow>
                            bind_err (get_coords_form_page_xml textline schema) (\<lambda>c. Inr (Some c))) (\<lambda>p.
              let l3 = l2\<lparr>line_polygon := p\<rparr>
              in (case find line (schema @ ''TextEquiv'') of
                    None \<Rightarrow> Inr l3
                  | Some transcription \<Rightarrow>
                      bind_err (unicode_text transcription schema) (\<lambda>t.
                      Inr (l3\<lparr>line_transcription := Some t\<rparr>)))))))"

definition region_from_page_xml :: "xml \<Rightarrow> string \<Rightarrow> error + RegionLayout" where
  "region_from_page_xml region schema =
     bind_err (get_region_from_page_xml region schema) (\<lambda>region_layout.
     bind_err (map_err (\<lambda>line. textline_from_page_xml line schema) (iter region (schema @ ''TextLine''))) (\<lambda>ls.
     Inr (region_layout\<lparr>region_lines := region_lines region_layout @ ls\<rparr>)))"

text \<open>
  The loop over the regions appends to \<open>self.regions\<close>; an exception leaves the regions
  appended so far. The result is the state of \<open>self\<close> and the exception, if one was raised.
\<close>

fun append_regions :: "xml list \<Rightarrow> string \<Rightarrow> PageLayout \<Rightarrow> PageLayout \<times> error option" where
  "append_regions [] schema self = (self, None)"
| "append_regions (region # rest) schema self =
     (case region_from_page_xml region schema of
        Inl e \<Rightarrow> (self, Some e)
      | Inr region_layout \<Rightarrow>
          append_regions rest schema (self\<lparr>regions := regions self @ [region_layout]\<rparr>))"

definition from_pagexml_tree :: "PageLayout \<Rightarrow> xml \<Rightarrow> PageLayout \<times> error option" where
  "from_pagexml_tree self page_tree =
     (case element_schema page_tree of
        Inl e \<Rightarrow> (self, Some e)
      | Inr schema \<Rightarrow>
          (case first_item (findall page_tree (schema @ ''Page'')) of
             Inl e \<Rightarrow> (self, Some e)
           | Inr page \<Rightarrow>
               (case attrib_item page ''imageFilename'' of
                  Inl e \<Rightarrow> (self, Some e)
                | Inr name \<Rightarrow>
                    let self1 = self\<lparr>page_id := Some name\<rparr>
                    in (case bind_err (attrib_item page ''imageHeight'') (\<lambda>hs.
                             bind_err (py_int hs) (\<lambda>h.
                             bind_err (attrib_item page ''imageWidth'') (\<lambda>ws.
                             bind_err (py_int ws) (\<lambda>w. Inr (h, w))))) of
                          Inl e \<Rightarrow> (self1, Some e)
                        | Inr sz \<Rightarrow>
                            append_regions (iter page_tree (schema @ ''TextRegion'')) schema
                              (self1\<lparr>page_size := sz\<rparr>)))))"

text \<open>
  Files and byte strings are represented by their content; \<open>parse\<close> stands for
  \<open>ET.parse\<close>, which yields the element tree of a well-formed document and an error
  otherwise.
\<close>

definition BytesIO :: "string \<Rightarrow> string" where
  "BytesIO content = content"

definition from_pagexml :: "(string \<Rightarrow> error + xml) \<Rightarrow> PageLayout \<Rightarrow> string \<Rightarrow> PageLayout \<times> error option" where
  "from_pagexml parse self file =
     (case parse file of
        Inl e \<Rightarrow> (self, Some e)
      | Inr page_tree \<Rightarrow> from_pagexml_tree self page_tree)"

definition from_pagexml_string :: "(string \<Rightarrow> error + xml) \<Rightarrow> PageLayout \<Rightarrow> string \<Rightarrow> PageLayout \<times> error option" where
  "from_pagexml_string parse self pagexml_string = from_pagexml parse self (BytesIO pagexml_string)"

definition from_altoxml_string :: "(string \<Rightarrow> error + xml) \<Rightarrow> PageLayout \<Rightarrow> string \<Rightarrow> PageLayout \<times> error option" where
  "from_altoxml_string parse self pagexml_string = from_pagexml parse self (BytesIO pagexml_string)"


text \<open>
  \<open>to_pagexml_string\<close>, up to the call of \<open>ET.tostring\<close>: the element tree that is
  serialised. \<open>set(name, None)\<close> is a \<open>TypeError\<close>; \<open>line.heights[0]\<close> and
  \<open>line.heights[1]\<close> are \<open>IndexError\<close>s on a shorter list.
\<close>

definition unicode_element :: "string \<Rightarrow> xml" where
  "unicode_element t = Element ''TextEquiv'' [] None [Element ''Unicode'' [] (Some t) []]"

definition to_page_xml :: "RegionLayout \<Rightarrow> xml" where
  \<comment> \<open>\<open>RegionLayout.to_page_xml\<close>, before the lines are added.\<close>
  "to_page_xml r =
     Element ''TextRegion'' [(''id'', region_id r)] None
       (Element ''Coords'' [(''points'', format_points (region_polygon r))] None []
        # (case region_transcription r of None \<Rightarrow> [] | Some t \<Rightarrow> [unicode_element t]))"

definition heights_v2_string :: "rat list \<Rightarrow> error + string" where
  "heights_v2_string hs =
     (case hs of
        h0 # h1 # _ \<Rightarrow> Inr (''heights_v2:['' @ format_1f h0 @ '','' @ format_1f h1 @ '']'')
      | _ \<Rightarrow> Inl IndexError)"

definition textline_to_page_xml :: "TextLine \<Rightarrow> error + xml" where
  "textline_to_page_xml line =
     (case line_id line of
        None \<Rightarrow> Inl TypeError
      | Some i \<Rightarrow>
          bind_err (case line_heights line of
                      None \<Rightarrow> Inr []
                    | Some hs \<Rightarrow> bind_err (heights_v2_string hs) (\<lambda>c. Inr [(''custom'', c)])) (\<lambda>custom.
          Inr (Element ''TextLine'' ((''id'', i) # custom) None
                 (Element ''Coords''
                    (case line_polygon line of None \<Rightarrow> [] | Some p \<Rightarrow> [(''points'', format_points p)])
                    None []
                  # (case line_baseline line of
                       None \<Rightarrow> []
                     | Some b \<Rightarrow> [Element ''Baseline'' [(''points'', format_points b)] None []])
                  @ (case line_transcription line of
                       None \<Rightarrow> []
                     | Some t \<Rightarrow> [unicode_element t])))))"

definition region_to_page_xml :: "RegionLayout \<Rightarrow> error + xml" where
  "region_to_page_xml region_layout =
     bind_err (map_err textline_to_page_xml (region_lines region_layout)) (\<lambda>ls.
     let text_region = to_page_xml region_layout
     in Inr (Element (tag text_region) (attrib text_region) (elem_text text_region)
               (children text_region @ ls)))"

definition page_xmlns :: string where
  "page_xmlns = ''http://schema.primaresearch.org/PAGE/gts/pagecontent/2013-07-15''"

definition to_pagexml_tree :: "PageLayout \<Rightarrow> error + xml" where
  "to_pagexml_tree self =
     (case page_id self of
        None \<Rightarrow> Inl TypeError
      | Some name \<Rightarrow>
          bind_err (map_err region_to_page_xml (regions self)) (\<lambda>rs.
          Inr (Element ''PcGts'' [(''xmlns'', page_xmlns)] None
                 [Element ''Page''
                    [(''imageFilename'', name),
                     (''imageWidth'', show_int (snd (page_size self))),
                     (''imageHeight'', show_int (fst (page_size self)))]
                    None rs])))"

text \<open>
  What \<open>ET.parse\<close> reads from the text that \<open>ET.tostring\<close> writes for such a tree: the
  attribute \<open>xmlns\<close> of the root is the namespace of every element, and an element
  with empty text has no text. The whitespace that pretty printing puts between
  elements is not represented.
\<close>

fun qualify :: "string \<Rightarrow> xml \<Rightarrow> xml" where
  "qualify ns (Element t a x cs) =
     Element (''{'' @ ns @ ''}'' @ t) (filter (\<lambda>kv. fst kv \<noteq> ''xmlns'') a)
             (if x = Some [] then None else x) (map (qualify ns) cs)"

definition reparse :: "xml \<Rightarrow> xml" where
  "reparse t = (case attrib_get t ''xmlns'' of None \<Rightarrow> t | Some ns \<Rightarrow> qualify ns t)"


section \<open>Writing a layout and reading it again\<close>

text \<open>
  \<open>reread_pagexml\<close> serialises a layout with \<open>to_pagexml_string\<close> and reads the result
  with \<open>from_pagexml\<close> into a new \<open>PageLayout\<close>.
\<close>

definition reread_pagexml :: "PageLayout \<Rightarrow> PageLayout \<times> error option" where
  "reread_pagexml self =
     (case to_pagexml_tree self of
        Inl e \<Rightarrow> (new_PageLayout, Some e)
      | Inr t \<Rightarrow> from_pagexml_tree new_PageLayout (reparse t))"

text \<open>
  What the serialisation keeps of a layout: coordinates are cut to integers, the first
  two heights are rounded to one decimal digit, a line without polygon gets the empty
  polygon of its \<open>Coords\<close> element, logits and alphabet are not written.
\<close>

definition round_tenth :: "rat \<Rightarrow> rat" where
  "round_tenth x = of_int (py_round (x * 10)) / 10"

definition trunc_point :: "point \<Rightarrow> point" where
  "trunc_point p = (of_int (py_trunc (fst p)), of_int (py_trunc (snd p)))"

definition written_line :: "TextLine \<Rightarrow> TextLine" where
  "written_line l =
     l\<lparr>line_baseline := map_option (map trunc_point) (line_baseline l),
       line_polygon := Some (case line_polygon l of None \<Rightarrow> [] | Some p \<Rightarrow> map trunc_point p),
       line_heights := map_option (\<lambda>hs. map round_tenth (take 2 hs)) (line_heights l),
       line_logits := None,
       line_characters := None\<rparr>"

definition written_region :: "RegionLayout \<Rightarrow> RegionLayout" where
  "written_region r =
     r\<lparr>region_polygon := map trunc_point (region_polygon r),
       region_lines := map written_line (region_lines r)\<rparr>"

definition written_page :: "PageLayout \<Rightarrow> PageLayout" where
  "written_page self = self\<lparr>regions := map written_region (regions self)\<rparr>"

text \<open>
  The layouts that can be written and read again without exception: the page and the
  lines have identifiers, no polygon or baseline is an empty sequence of points, and a
  height annotation has at least two numbers.
\<close>

definition writable_line :: "TextLine \<Rightarrow> bool" where
  "writable_line l \<longleftrightarrow>
     line_id l \<noteq> None \<and> line_polygon l \<noteq> Some [] \<and> line_baseline l \<noteq> Some []
     \<and> (case line_heights l of None \<Rightarrow> True | Some hs \<Rightarrow> 2 \<le> length hs)"

definition writable_region :: "RegionLayout \<Rightarrow> bool" where
  "writable_region r \<longleftrightarrow> region_polygon r \<noteq> [] \<and> list_all writable_line (region_lines r)"

definition writable :: "PageLayout \<Rightarrow> bool" where
  "writable self \<longleftrightarrow> page_id self \<noteq> None \<and> list_all writable_region (regions self)"

text \<open>
  The layouts that the serialisation keeps as they are: integer coordinates, a polygon
  for every line, height pairs with one decimal digit, no logits.
\<close>

definition integral_point :: "point \<Rightarrow> bool" where
  "integral_point p \<longleftrightarrow> fst p = of_int \<lfloor>fst p\<rfloor> \<and> snd p = of_int \<lfloor>snd p\<rfloor>"

definition exact_line :: "TextLine \<Rightarrow> bool" where
  "exact_line l \<longleftrightarrow>
     (case line_polygon l of None \<Rightarrow> False | Some p \<Rightarrow> list_all integral_point p)
     \<and> (case line_baseline l of None \<Rightarrow> True | Some b \<Rightarrow> list_all integral_point b)
     \<and> (case line_heights l of
          None \<Rightarrow> True
        | Some hs \<Rightarrow> length hs = 2 \<and> list_all (\<lambda>h. h * 10 = of_int \<lfloor>h * 10\<rfloor>) hs)
     \<and> line_logits l = None \<and> line_characters l = None"

definition exact_region :: "RegionLayout \<Rightarrow> bool" where
  "exact_region r \<longleftrightarrow> list_all integral_point (region_polygon r) \<and> list_all exact_line (region_lines r)"

definition exact_page :: "PageLayout \<Rightarrow> bool" where
  "exact_page self \<longleftrightarrow> list_all exact_region (regions self)"


section \<open>Writing the ALTO dialect\<close>

text \<open>
  The elements that \<open>to_altoxml_string\<close> builds. An attribute value is the text that is
  set, or the number whose \<open>str()\<close> is set.
\<close>

datatype attr_value = Text string | Number rat

datatype alto_xml = Alto (alto_tag: string) (alto_attrib: "(string \<times> attr_value) list")
                         (alto_children: "alto_xml list")

text \<open>
  \<open>max\<close> and \<open>min\<close> over a column of an array of points. Indexing \<open>[:, 1]\<close> is an
  \<open>IndexError\<close> for \<open>None\<close> and for an array without points, which has one dimension.
\<close>

definition list_max :: "rat list \<Rightarrow> rat" where
  "list_max xs = fold max (tl xs) (hd xs)"

definition list_min :: "rat list \<Rightarrow> rat" where
  "list_min xs = fold min (tl xs) (hd xs)"

definition column :: "(point \<Rightarrow> rat) \<Rightarrow> point list option \<Rightarrow> error + rat list" where
  "column sel pts =
     (case pts of
        None \<Rightarrow> Inl IndexError
      | Some ps \<Rightarrow> if ps = [] then Inl IndexError else Inr (map sel ps))"

text \<open>
  Basic slicing \<open>xs[start:stop]\<close>: a negative index counts from the end, and indices are
  clipped to the sequence.
\<close>

definition slice_index :: "nat \<Rightarrow> int \<Rightarrow> nat" where
  "slice_index n i = (if i < 0 then nat (max (i + int n) 0) else min (nat i) n)"

definition py_slice :: "int \<Rightarrow> int \<Rightarrow> 'a list \<Rightarrow> 'a list" where
  "py_slice start stop xs =
     (let n = length xs; a = slice_index n start; b = slice_index n stop
      in take (b - a) (drop a xs))"

text \<open>
  The coordinate grid of a line is the list of its rows, all of the same length;
  \<open>np.shape(line_coords)[1]\<close> is the length of a row. \<open>grid_box\<close> takes the columns
  \<open>start:stop\<close> of every row and returns \<open>(min x, max x, min y, max y)\<close>; \<open>np.max\<close> and
  \<open>np.min\<close> raise \<open>ValueError\<close> on an array without elements.
\<close>

type_synonym grid = "point list list"

definition grid_width :: "grid \<Rightarrow> nat" where
  "grid_width line_coords = (case line_coords of [] \<Rightarrow> 0 | row # _ \<Rightarrow> length row)"

definition grid_box :: "grid \<Rightarrow> int \<Rightarrow> int \<Rightarrow> error + (rat \<times> rat \<times> rat \<times> rat)" where
  "grid_box line_coords start stop =
     (let cells = concat (map (py_slice start stop) line_coords);
          all_x = map fst cells;
          all_y = map snd cells
      in if cells = [] then Inl ValueError
         else Inr (list_min all_x, list_max all_x, list_min all_y, list_max all_y))"

text \<open>
  The projection of a word: \<open>lm_const\<close> scales alignment columns to grid columns;
  \<open>string_hpos\<close> is decreased by one before it is used; the columns of the word and of
  the gap after it are given as the bounds \<open>start:stop\<close> of the slices.
\<close>

definition lm_const :: "grid \<Rightarrow> int list \<Rightarrow> rat" where
  "lm_const line_coords aligned = of_nat (grid_width line_coords) / of_nat (length aligned * 4)"

definition string_columns :: "rat \<Rightarrow> walk_state \<Rightarrow> int \<times> int" where
  "string_columns lm s =
     (let string_hpos' = string_hpos s - 1;
          start = py_trunc (of_int string_hpos' * lm)
      in (start, start + py_trunc (of_int (string_width s) * lm)))"

definition space_columns :: "rat \<Rightarrow> walk_state \<Rightarrow> int \<times> int" where
  "space_columns lm s =
     (let string_hpos' = string_hpos s - 1;
          start = py_trunc (of_int (string_hpos' + string_width s) * lm)
      in (start, start + py_trunc (of_int (end_of_space s - (string_hpos' + string_width s)) * lm)))"

text \<open>
  The \<open>String\<close> element of a word and, unless the word is the last of the transcription,
  the \<open>SP\<close> element of the gap after it, from the variables of the boundary walk.
\<close>

definition word_elements :: "grid \<Rightarrow> int list \<Rightarrow> string \<Rightarrow> walk_state \<Rightarrow> bool \<Rightarrow> error + alto_xml list" where
  "word_elements line_coords aligned word s with_space =
     (if length aligned * 4 = 0 then Inl ZeroDivisionError
      else
        let lm = lm_const line_coords aligned
        in bind_err (grid_box line_coords (fst (string_columns lm s)) (snd (string_columns lm s)))
             (\<lambda>(min_x, max_x, min_y, max_y).
           let string = Alto ''String''
                 [(''CONTENT'', Text word),
                  (''HEIGHT'', Number (of_int (py_trunc (max_y - min_y)))),
                  (''WIDTH'', Number (of_int (py_trunc (max_x - min_x)))),
                  (''VPOS'', Number (of_int (py_trunc min_y))),
                  (''HPOS'', Number (of_int (py_trunc min_x)))] []
           in if with_space then
                bind_err (grid_box line_coords (fst (space_columns lm s)) (snd (space_columns lm s)))
                  (\<lambda>(min_x, max_x, min_y, max_y).
                   Inr [string,
                        Alto ''SP''
                          [(''WIDTH'', Number (of_int (py_trunc (max_x - min_x)))),
                           (''VPOS'', Number (of_int (py_trunc min_y))),
                           (''HPOS'', Number (of_int (py_trunc min_x)))] []])
              else Inr [string]))"

text \<open>
  The loop over the words: \<open>n\<close> is the number of words of the transcription, \<open>w\<close> the
  index of the current word, \<open>global\<close> the value of \<open>global_letter_counter\<close>.
\<close>

fun words_to_alto :: "grid \<Rightarrow> int \<Rightarrow> int list \<Rightarrow> nat \<Rightarrow> nat \<Rightarrow> string list \<Rightarrow> int \<Rightarrow> error + alto_xml list" where
  "words_to_alto line_coords blank aligned n w [] global = Inr []"
| "words_to_alto line_coords blank aligned n w (word # rest) global =
     (let s = walk_word blank aligned word global
      in bind_err (word_elements line_coords aligned word s (int w \<noteq> int n - 1)) (\<lambda>elems.
         bind_err (words_to_alto line_coords blank aligned n (w + 1) rest (global_letter_counter s)) (\<lambda>more.
         Inr (elems @ more))))"

text \<open>
  \<open>char_to_num = dict(zip(line.characters, chars))\<close>: a character that occurs twice in
  the alphabet gets its last index.
\<close>

definition char_to_num :: "string \<Rightarrow> char \<Rightarrow> error + int" where
  "char_to_num characters item =
     (case map_of (rev (zip characters [0..<length characters])) item of
        None \<Rightarrow> Inl KeyError
      | Some i \<Rightarrow> Inr (int i))"

text \<open>
  The external collaborators are parameters. \<open>force_align logits label blank\<close> stands for
  \<open>force_align(-np.log(softmax(logits, axis=1)), label, blank)\<close>, and
  \<open>get_crop_inputs baseline heights\<close> for
  \<open>EngineLineCropper(poly=2).get_crop_inputs(baseline, heights, 16)\<close>; both may raise.

  The body of the loop over the lines of a block, for a line that is not skipped.
\<close>

definition textline_to_alto ::
  "(rat list list \<Rightarrow> int list \<Rightarrow> int \<Rightarrow> error + int list) \<Rightarrow>
   (point list option \<Rightarrow> rat list option \<Rightarrow> error + grid) \<Rightarrow> TextLine \<Rightarrow> string \<Rightarrow> error + alto_xml" where
  "textline_to_alto force_align get_crop_inputs line transcription =
     bind_err (column snd (line_baseline line)) (\<lambda>baseline_y.
     let text_line_baseline = py_trunc (sum_list baseline_y / of_nat (length baseline_y))
     in bind_err (column snd (line_polygon line)) (\<lambda>ys.
        bind_err (column fst (line_polygon line)) (\<lambda>xs.
        (case line_characters line of
           None \<Rightarrow> Inl TypeError
         | Some characters \<Rightarrow>
             let blank = int (length characters)
             in bind_err (map_err (char_to_num characters) transcription) (\<lambda>label.
                bind_err (get_dense_logits line (- 80)) (\<lambda>logits.
                bind_err (force_align logits label blank) (\<lambda>aligned0.
                let aligned = narrow_label aligned0 logits blank False
                in bind_err (get_crop_inputs (line_baseline line) (line_heights line)) (\<lambda>line_coords.
                   let words = split transcription
                   in bind_err (words_to_alto line_coords blank aligned (length words) 0 words 0) (\<lambda>elems.
                      Inr (Alto ''TextLine''
                             [(''BASELINE'', Number (of_int text_line_baseline)),
                              (''VPOS'', Number (list_min ys)),
                              (''HPOS'', Number (list_min xs)),
                              (''HEIGHT'', Number (list_max ys - list_min ys)),
                              (''WIDTH'', Number (list_max xs - list_min xs))]
                             elems))))))))))"

text \<open>
  A line is exported if \<open>not line.transcription\<close> is false: the transcription is
  neither \<open>None\<close> nor the empty string.
\<close>

definition transcribed :: "TextLine \<Rightarrow> bool" where
  "transcribed line = (case line_transcription line of None \<Rightarrow> False | Some t \<Rightarrow> t \<noteq> [])"

definition transcription_text :: "TextLine \<Rightarrow> string" where
  "transcription_text line = (case line_transcription line of None \<Rightarrow> [] | Some t \<Rightarrow> t)"

definition drop_untranscribed :: "PageLayout \<Rightarrow> PageLayout" where
  "drop_untranscribed self =
     self\<lparr>regions := map (\<lambda>r. r\<lparr>region_lines := filter transcribed (region_lines r)\<rparr>) (regions self)\<rparr>"

text \<open>The loop over the lines: \<open>if not line.transcription: continue\<close>.\<close>

fun lines_to_alto ::
  "(rat list list \<Rightarrow> int list \<Rightarrow> int \<Rightarrow> error + int list) \<Rightarrow>
   (point list option \<Rightarrow> rat list option \<Rightarrow> error + grid) \<Rightarrow> TextLine list \<Rightarrow> error + alto_xml list" where
  "lines_to_alto force_align get_crop_inputs [] = Inr []"
| "lines_to_alto force_align get_crop_inputs (line # rest) =
     (case line_transcription line of
        None \<Rightarrow> lines_to_alto force_align get_crop_inputs rest
      | Some transcription \<Rightarrow>
          if transcription = [] then lines_to_alto force_align get_crop_inputs rest
          else bind_err (textline_to_alto force_align get_crop_inputs line transcription) (\<lambda>text_line.
               bind_err (lines_to_alto force_align get_crop_inputs rest) (\<lambda>more.
               Inr (text_line # more))))"

text \<open>
  The variables \<open>print_space_height\<close>, \<open>print_space_width\<close>, \<open>print_space_vpos\<close> and
  \<open>print_space_hpos\<close>, and the loop over the blocks, which updates them.
\<close>

record print_space =
  print_space_height :: rat
  print_space_width :: rat
  print_space_vpos :: rat
  print_space_hpos :: rat

fun blocks_to_alto ::
  "(rat list list \<Rightarrow> int list \<Rightarrow> int \<Rightarrow> error + int list) \<Rightarrow>
   (point list option \<Rightarrow> rat list option \<Rightarrow> error + grid) \<Rightarrow>
   RegionLayout list \<Rightarrow> print_space \<Rightarrow> error + (alto_xml list \<times> print_space)" where
  "blocks_to_alto force_align get_crop_inputs [] ps = Inr ([], ps)"
| "blocks_to_alto force_align get_crop_inputs (block # rest) ps =
     bind_err (column snd (Some (region_polygon block))) (\<lambda>ys.
     bind_err (column fst (Some (region_polygon block))) (\<lambda>xs.
     let text_block_height = list_max ys - list_min ys;
         text_block_width = list_max xs - list_min xs;
         text_block_vpos = list_min ys;
         text_block_hpos = list_min xs;
         height1 = max (print_space_vpos ps + print_space_height ps) (text_block_vpos + text_block_height);
         width1 = max (print_space_hpos ps + print_space_width ps) (text_block_hpos + text_block_width);
         vpos1 = min (print_space_vpos ps) text_block_vpos;
         hpos1 = min (print_space_hpos ps) text_block_hpos;
         ps1 = \<lparr>print_space_height = height1 - vpos1, print_space_width = width1 - hpos1,
                print_space_vpos = vpos1, print_space_hpos = hpos1\<rparr>
     in bind_err (lines_to_alto force_align get_crop_inputs (region_lines block)) (\<lambda>text_lines.
        bind_err (blocks_to_alto force_align get_crop_inputs rest ps1) (\<lambda>(more, ps2).
        Inr (Alto ''TextBlock''
               [(''ID'', Text (region_id block)),
                (''HEIGHT'', Number text_block_height),
                (''WIDTH'', Number text_block_width),
                (''VPOS'', Number text_block_vpos),
                (''HPOS'', Number text_block_hpos)]
               text_lines # more, ps2)))))"

text \<open>
  \<open>to_altoxml_string\<close>, up to the call of \<open>ET.tostring\<close>. The element \<open>Description\<close>
  (measurement unit, date and name of the software) does not depend on the layout and
  is left out. The function reads the layout and assigns to none of its fields.
\<close>

definition to_altoxml_tree ::
  "(rat list list \<Rightarrow> int list \<Rightarrow> int \<Rightarrow> error + int list) \<Rightarrow>
   (point list option \<Rightarrow> rat list option \<Rightarrow> error + grid) \<Rightarrow> PageLayout \<Rightarrow> error + alto_xml" where
  "to_altoxml_tree force_align get_crop_inputs self =
     (case page_id self of
        None \<Rightarrow> Inl TypeError
      | Some name \<Rightarrow>
          let page_height = of_int (fst (page_size self)) :: rat;
              page_width = of_int (snd (page_size self)) :: rat
          in bind_err (blocks_to_alto force_align get_crop_inputs (regions self)
                         \<lparr>print_space_height = 0, print_space_width = 0,
                          print_space_vpos = page_height, print_space_hpos = page_width\<rparr>)
               (\<lambda>(text_blocks, ps).
                Inr (Alto ''alto'' [(''xmlns'', Text ''http://www.loc.gov/standards/alto/ns-v2#'')]
                  [Alto ''Layout'' []
                    [Alto ''Page''
                       [(''ID'', Text (''id_'' @ name)),
                        (''PHYSICAL_IMG_NR'', Number 1),
                        (''HEIGHT'', Number page_height),
                        (''WIDTH'', Number page_width)]
                       [Alto ''TopMargin''
                          [(''HEIGHT'', Number (print_space_vpos ps)),
                           (''WIDTH'', Number page_width),
                           (''VPOS'', Number 0),
                           (''HPOS'', Number 0)] [],
                        Alto ''LeftMargin''
                          [(''HEIGHT'', Number page_height),
                           (''WIDTH'', Number (print_space_hpos ps)),
                           (''VPOS'', Number 0),
                           (''HPOS'', Number 0)] [],
                        Alto ''RightMargin''
                          [(''HEIGHT'', Number page_height),
                           (''WIDTH'', Number (page_width - (print_space_hpos ps + print_space_width ps))),
                           (''VPOS'', Number 0),
                           (''HPOS'', Number (print_space_hpos ps + print_space_width ps))] [],
                        Alto ''BottomMargin''
                          [(''HEIGHT'', Number (page_height - (print_space_vpos ps + print_space_height ps))),
                           (''WIDTH'', Number page_width),
                           (''VPOS'', Number (print_space_vpos ps + print_space_height ps)),
                           (''HPOS'', Number 0)] [],
                        Alto ''PrintSpace''
                          [(''HEIGHT'', Number (print_space_height ps)),
                           (''WIDTH'', Number (print_space_width ps)),
                           (''VPOS'', Number (print_space_vpos ps)),
                           (''HPOS'', Number (print_space_hpos ps))]
                          text_blocks]]])))"


section \<open>Reading the ALTO dialect\<close>

text \<open>
  \<open>int(elem.attrib[key])\<close> raises \<open>KeyError\<close> for a missing attribute;
  \<open>int(elem.get(key))\<close> raises \<open>TypeError\<close>, since \<open>get\<close> returns \<open>None\<close>.
\<close>

definition int_attrib :: "xml \<Rightarrow> string \<Rightarrow> error + int" where
  "int_attrib elem key = bind_err (attrib_item elem key) py_int"

definition int_get :: "xml \<Rightarrow> string \<Rightarrow> error + int" where
  "int_get elem key = (case attrib_get elem key of None \<Rightarrow> Inl TypeError | Some v \<Rightarrow> py_int v)"

definition rectangle :: "int \<Rightarrow> int \<Rightarrow> int \<Rightarrow> int \<Rightarrow> point list" where
  "rectangle hpos vpos width height =
     [(of_int hpos, of_int vpos),
      (of_int (hpos + width), of_int vpos),
      (of_int (hpos + width), of_int (vpos + height)),
      (of_int hpos, of_int (vpos + height))]"

text \<open>
  The transcription of a line: the \<open>CONTENT\<close> of its \<open>String\<close> elements, joined by
  spaces. A \<open>String\<close> without \<open>CONTENT\<close> adds \<open>None\<close> to a string, a \<open>TypeError\<close>.
\<close>

fun join_contents :: "xml list \<Rightarrow> bool \<Rightarrow> string \<Rightarrow> error + string" where
  "join_contents [] start word = Inr word"
| "join_contents (t # rest) start word =
     (case attrib_get t ''CONTENT'' of
        None \<Rightarrow> Inl TypeError
      | Some c \<Rightarrow> join_contents rest False (if start then word @ c else word @ '' '' @ c))"

text \<open>The body of the loop over the \<open>TextLine\<close> elements of a block.\<close>

definition textline_from_alto :: "xml \<Rightarrow> string \<Rightarrow> error + TextLine" where
  "textline_from_alto line schema =
     bind_err (int_attrib line ''HPOS'') (\<lambda>hpos.
     bind_err (int_attrib line ''BASELINE'') (\<lambda>baseline.
     bind_err (int_attrib line ''WIDTH'') (\<lambda>width.
     bind_err (int_attrib line ''HEIGHT'') (\<lambda>height.
     bind_err (int_attrib line ''VPOS'') (\<lambda>vpos.
     let new_textline = new_TextLine
           \<lparr>line_baseline := Some [(of_int hpos, of_int baseline), (of_int (hpos + width), of_int baseline)],
            line_polygon := Some (rectangle hpos vpos width height),
            line_heights := Some [of_int (height + vpos - baseline), of_int (baseline - vpos)]\<rparr>
     in bind_err (join_contents (iter line (schema @ ''String'')) True []) (\<lambda>word.
        Inr (new_textline\<lparr>line_transcription := Some word\<rparr>)))))))"

definition region_from_alto :: "xml \<Rightarrow> string \<Rightarrow> error + RegionLayout" where
  "region_from_alto region schema =
     bind_err (int_get region ''HPOS'') (\<lambda>hpos.
     bind_err (int_get region ''VPOS'') (\<lambda>vpos.
     bind_err (int_get region ''WIDTH'') (\<lambda>width.
     bind_err (int_get region ''HEIGHT'') (\<lambda>height.
     bind_err (attrib_item region ''ID'') (\<lambda>i.
     let region_layout = new_RegionLayout i (rectangle hpos vpos width height)
     in bind_err (map_err (\<lambda>line. textline_from_alto line schema) (iter region (schema @ ''TextLine''))) (\<lambda>ls.
        Inr (region_layout\<lparr>region_lines := region_lines region_layout @ ls\<rparr>)))))))"

fun append_blocks :: "xml list \<Rightarrow> string \<Rightarrow> PageLayout \<Rightarrow> PageLayout \<times> error option" where
  "append_blocks [] schema self = (self, None)"
| "append_blocks (region # rest) schema self =
     (case region_from_alto region schema of
        Inl e \<Rightarrow> (self, Some e)
      | Inr region_layout \<Rightarrow>
          append_blocks rest schema (self\<lparr>regions := regions self @ [region_layout]\<rparr>))"

definition from_altoxml_tree :: "PageLayout \<Rightarrow> xml \<Rightarrow> PageLayout \<times> error option" where
  "from_altoxml_tree self page_tree =
     (case bind_err (element_schema page_tree) (\<lambda>schema.
           bind_err (first_item (findall page_tree (schema @ ''Layout''))) (\<lambda>layout.
           bind_err (first_item (findall layout (schema @ ''Page''))) (\<lambda>page.
           bind_err (attrib_item page ''ID'') (\<lambda>i. Inr (schema, page, i))))) of
        Inl e \<Rightarrow> (self, Some e)
      | Inr (schema, page, i) \<Rightarrow>
          let self1 = self\<lparr>page_id := Some (drop 3 i)\<rparr>
          in (case bind_err (int_attrib page ''HEIGHT'') (\<lambda>h.
                   bind_err (int_attrib page ''WIDTH'') (\<lambda>w. Inr (h, w))) of
                Inl e \<Rightarrow> (self1, Some e)
              | Inr sz \<Rightarrow>
                  let self2 = self1\<lparr>page_size := sz\<rparr>
                  in (case first_item (findall page (schema @ ''PrintSpace'')) of
                        Inl e \<Rightarrow> (self2, Some e)
                      | Inr print_space \<Rightarrow>
                          append_blocks (iter print_space (schema @ ''TextBlock'')) schema self2)))"

definition from_altoxml :: "(string \<Rightarrow> error + xml) \<Rightarrow> PageLayout \<Rightarrow> string \<Rightarrow> PageLayout \<times> error option" where
  "from_altoxml parse self file =
     (case parse file of
        Inl e \<Rightarrow> (self, Some e)
      | Inr page_tree \<Rightarrow> from_altoxml_tree self page_tree)"


section \<open>Loading a logits snapshot\<close>


















section \<open>Example documents\<close>

text \<open>
  An ALTO document with one block and one line: the line box has \<open>VPOS = 100\<close> and
  \<open>HEIGHT = 50\<close>, the baseline is at 140, so 40 pixels of the box are above the baseline
  and 10 below.
\<close>

definition alto_example :: xml where
  "alto_example =
     Element ''{http://www.loc.gov/standards/alto/ns-v2#}alto'' [] None
       [Element ''{http://www.loc.gov/standards/alto/ns-v2#}Description'' [] None [],
        Element ''{http://www.loc.gov/standards/alto/ns-v2#}Layout'' [] None
          [Element ''{http://www.loc.gov/standards/alto/ns-v2#}Page''
             [(''ID'', ''id_p1''), (''HEIGHT'', ''1000''), (''WIDTH'', ''800'')] None
             [Element ''{http://www.loc.gov/standards/alto/ns-v2#}PrintSpace'' [] None
                [Element ''{http://www.loc.gov/standards/alto/ns-v2#}TextBlock''
                   [(''ID'', ''b1''), (''HPOS'', ''10''), (''VPOS'', ''90''),
                    (''WIDTH'', ''300''), (''HEIGHT'', ''70'')] None
                   [Element ''{http://www.loc.gov/standards/alto/ns-v2#}TextLine''
                      [(''BASELINE'', ''140''), (''VPOS'', ''100''), (''HPOS'', ''10''),
                       (''HEIGHT'', ''50''), (''WIDTH'', ''300'')] None
                      [Element ''{http://www.loc.gov/standards/alto/ns-v2#}String''
                         [(''CONTENT'', ''hello'')] None [],
                       Element ''{http://www.loc.gov/standards/alto/ns-v2#}SP'' [] None [],
                       Element ''{http://www.loc.gov/standards/alto/ns-v2#}String''
                         [(''CONTENT'', ''world'')] None []]]]]]]"

definition parse_alto_example :: "string \<Rightarrow> error + xml" where
  \<comment> \<open>a parser that reads \<open>alto_example\<close> from every file\<close>
  "parse_alto_example file = Inr alto_example"

text \<open>
  The line of the specification's example: alphabet \<open>h, i\<close> (blank index 2),
  transcription \<open>hi\<close>, a forced alignment that returns the path
  \<open>[0,2,2,1,2,2,2,2]\<close> of 8 frames, and a coordinate grid of two rows and \<open>4 * 8 = 32\<close>
  columns.
\<close>

definition example_force_align :: "rat list list \<Rightarrow> int list \<Rightarrow> int \<Rightarrow> error + int list" where
  "example_force_align logits label blank = Inr [0, 2, 2, 1, 2, 2, 2, 2]"

definition example_grid :: grid where
  "example_grid = [map (\<lambda>i. (of_nat i, 5)) [0..<32], map (\<lambda>i. (of_nat i, 25)) [0..<32]]"

definition example_get_crop_inputs :: "point list option \<Rightarrow> rat list option \<Rightarrow> error + grid" where
  "example_get_crop_inputs baseline heights = Inr example_grid"

definition hi_line :: TextLine where
  "hi_line =
     \<lparr>line_id = Some ''l1'',
      line_baseline = Some [(0, 20), (32, 20)],
      line_polygon = Some [(0, 5), (32, 5), (32, 25), (0, 25)],
      line_heights = Some [15, 5],
      line_transcription = Some ''hi'',
      line_logits = Some (Matrix [[- 1, 0], [0, 0], [0, 0], [0, - 1], [0, 0], [0, 0], [0, 0], [0, 0]]),
      line_characters = Some ''hi''\<rparr>"

definition page_of_line :: "TextLine \<Rightarrow> PageLayout" where
  "page_of_line line =
     \<lparr>page_id = Some ''page.jpg'', page_size = (100, 200),
      regions = [\<lparr>region_id = ''r1'', region_polygon = [(0, 0), (40, 0), (40, 30), (0, 30)],
                  region_lines = [line], region_transcription = None\<rparr>]\<rparr>"





section \<open>Properties of label narrowing\<close>

lemma fold_update_upt:
  "k \<le> length xs \<Longrightarrow> j \<le> k \<Longrightarrow>
   fold (\<lambda>elem l. l[elem := v]) [j..<k] xs = take j xs @ replicate (k - j) v @ drop k xs"
proof (induction k)
  case 0
  then show ?case by simp
next
  case (Suc k)
  show ?case
  proof (cases "j = Suc k")
    case True
    then show ?thesis by simp
  next
    case False
    with Suc.prems have jk: "j \<le> k" and kl: "k < length xs" by simp_all
    have "fold (\<lambda>elem l. l[elem := v]) [j..<Suc k] xs
          = (take j xs @ replicate (k - j) v @ drop k xs)[k := v]"
      using Suc.IH jk kl by simp
    also have "\<dots> = take j xs @ replicate (k - j) v @ ((drop k xs)[0 := v])"
      using jk kl by (simp add: list_update_append)
    also have "(drop k xs)[0 := v] = v # drop (Suc k) xs"
      using kl by (simp add: Cons_nth_drop_Suc [symmetric])
    also have "take j xs @ replicate (k - j) v @ v # drop (Suc k) xs
               = take j xs @ replicate (Suc k - j) v @ drop (Suc k) xs"
      using jk by (simp add: Suc_diff_le replicate_append_same)
    finally show ?thesis .
  qed
qed

lemma fold_update_length:
  "length (fold (\<lambda>elem l. l[elem := v]) is xs) = length xs"
  by (induction "is" arbitrary: xs) simp_all

lemma fold_update_nth:
  assumes "k \<le> length xs" "j \<le> k" "i < length xs"
  shows "fold (\<lambda>elem l. l[elem := v]) [j..<k] xs ! i = (if j \<le> i \<and> i < k then v else xs ! i)"
proof -
  have "fold (\<lambda>elem l. l[elem := v]) [j..<k] xs ! i
        = (take j xs @ replicate (k - j) v @ drop k xs) ! i"
    using assms by (simp add: fold_update_upt)
  also have "\<dots> = (if j \<le> i \<and> i < k then v else xs ! i)"
    using assms by (auto simp: nth_append min_def)
  finally show ?thesis .
qed

lemma narrowed_upto_length: "k \<le> length label \<Longrightarrow> length (narrowed_upto label blank fill k) = length label"
  by (simp add: narrowed_upto_def)

lemma narrowed_upto_nth:
  "k \<le> length label \<Longrightarrow> i < length label \<Longrightarrow>
   narrowed_upto label blank fill k ! i = (if i < k then narrowed_frame label blank fill i else label ! i)"
  by (auto simp: narrowed_upto_def nth_append)

lemma rewrite_run_length:
  "length (rewrite_run lib idx lc rep label) = length label"
  by (simp add: rewrite_run_def Let_def fold_update_length split: list.splits option.splits)

lemma rewrite_run_Cons:
  "rewrite_run lib idx (Some c) (h # t) label
   = (fold (\<lambda>elem l. l[elem := narrow_fill lib idx]) (h # t) label)[h := c]"
  by (simp add: rewrite_run_def narrow_fill_def)

text \<open>Rewriting the collected run completes the narrowing of the frames before \<open>k\<close>.\<close>

lemma rewrite_run_upto:
  assumes k: "k \<le> length label" and j: "j \<le> k"
    and run: "\<forall>i. j \<le> i \<and> i < k \<longrightarrow> label ! i = label ! (k - 1) \<and> label ! i \<noteq> blank"
    and first: "j < k \<longrightarrow> j = 0 \<or> label ! (j - 1) \<noteq> label ! j"
    and lc: "0 < k \<longrightarrow> lc = Some (label ! (k - 1))"
  shows "rewrite_run lib blank lc [j..<k] (narrowed_upto label blank (narrow_fill lib blank) j)
         = narrowed_upto label blank (narrow_fill lib blank) k"
proof (cases "j = k")
  case True
  then show ?thesis by (simp add: rewrite_run_def)
next
  case False
  with j have jk: "j < k" by simp
  let ?f = "narrow_fill lib blank"
  let ?xs = "narrowed_upto label blank ?f j"
  have len: "length ?xs = length label"
    using j k by (simp add: narrowed_upto_length)
  have upt: "[j..<k] = j # [Suc j..<k]"
    using jk by (simp add: upt_conv_Cons)
  have lcv: "lc = Some (label ! (k - 1))"
    using lc jk by simp
  have rw: "rewrite_run lib blank lc [j..<k] ?xs
            = (fold (\<lambda>elem l. l[elem := ?f]) [j..<k] ?xs)[j := label ! (k - 1)]"
    unfolding lcv upt by (rule rewrite_run_Cons)
  show ?thesis
  proof (rule nth_equalityI)
    show "length (rewrite_run lib blank lc [j..<k] ?xs) = length (narrowed_upto label blank ?f k)"
      using k len by (simp add: rewrite_run_length narrowed_upto_length)
  next
    fix i
    assume "i < length (rewrite_run lib blank lc [j..<k] ?xs)"
    then have i: "i < length label"
      using len by (simp add: rewrite_run_length)
    have lhs: "rewrite_run lib blank lc [j..<k] ?xs ! i
          = (if i = j then label ! (k - 1) else if j \<le> i \<and> i < k then ?f else ?xs ! i)"
      using i k j len by (simp add: rw nth_list_update fold_update_length fold_update_nth)
    have rhs: "narrowed_upto label blank ?f k ! i
          = (if i < k then narrowed_frame label blank ?f i else label ! i)"
      using k i by (simp add: narrowed_upto_nth)
    have xs: "?xs ! i = (if i < j then narrowed_frame label blank ?f i else label ! i)"
      using k j i by (simp add: narrowed_upto_nth)
    consider "i < j" | "i = j" | "j < i" "i < k" | "k \<le> i" by linarith
    then show "rewrite_run lib blank lc [j..<k] ?xs ! i = narrowed_upto label blank ?f k ! i"
    proof cases
      case 1
      then show ?thesis unfolding lhs rhs xs using jk by simp
    next
      case 2
      have "label ! j = label ! (k - 1)" using run [rule_format, of j] jk by blast
      moreover have "narrowed_frame label blank ?f j = label ! j"
        using first jk by (auto simp: narrowed_frame_def)
      ultimately show ?thesis unfolding lhs rhs using 2 jk by simp
    next
      case 3
      have a: "label ! i = label ! (k - 1)" "label ! i \<noteq> blank"
        using run [rule_format, of i] 3 by auto
      have "j \<le> i - 1 \<and> i - 1 < k" using 3 by linarith
      then have b: "label ! (i - 1) = label ! (k - 1)"
        using run [rule_format, of "i - 1"] by blast
      have "narrowed_frame label blank ?f i = ?f"
        using 3 a b by (simp add: narrowed_frame_def)
      then show ?thesis unfolding lhs rhs using 3 by simp
    next
      case 4
      then show ?thesis unfolding lhs rhs xs using jk by simp
    qed
  qed
qed

lemma narrow_invI:
  assumes "j \<le> k"
    and "fold (narrow_step lib blank) [0..<k] \<lparr>ns_label = label, ns_last_char = None, ns_repeating = []\<rparr>
          = \<lparr>ns_label = narrowed_upto label blank (narrow_fill lib blank) j,
             ns_last_char = (if k = 0 then None else Some (label ! (k - 1))),
             ns_repeating = [j..<k]\<rparr>"
    and "\<forall>i. j \<le> i \<and> i < k \<longrightarrow> label ! i = label ! (k - 1) \<and> label ! i \<noteq> blank"
    and "j < k \<longrightarrow> j = 0 \<or> label ! (j - 1) \<noteq> label ! j"
    and "j = k \<longrightarrow> k = 0 \<or> label ! (k - 1) = blank"
  shows "narrow_inv label lib blank k j"
  unfolding narrow_inv_def using assms by (intro conjI)

lemma narrow_loop_invariant:
  "k \<le> length label \<Longrightarrow> \<exists>j. narrow_inv label lib blank k j"
proof (induction k)
  case 0
  show ?case by (rule exI [of _ 0]) (simp add: narrow_inv_def narrowed_upto_def)
next
  case (Suc k)
  let ?f = "narrow_fill lib blank"
  let ?init = "\<lparr>ns_label = label, ns_last_char = None, ns_repeating = []\<rparr>"
  from Suc.prems have kl: "k < length label" and kle: "k \<le> length label" by simp_all
  from Suc.IH [OF kle] obtain j where inv: "narrow_inv label lib blank k j" ..
  have j: "j \<le> k"
    and st: "fold (narrow_step lib blank) [0..<k] ?init
             = \<lparr>ns_label = narrowed_upto label blank ?f j,
                ns_last_char = (if k = 0 then None else Some (label ! (k - 1))),
                ns_repeating = [j..<k]\<rparr>"
    and run: "\<forall>i. j \<le> i \<and> i < k \<longrightarrow> label ! i = label ! (k - 1) \<and> label ! i \<noteq> blank"
    and first: "j < k \<longrightarrow> j = 0 \<or> label ! (j - 1) \<noteq> label ! j"
    and blank: "j = k \<longrightarrow> k = 0 \<or> label ! (k - 1) = blank"
    using inv unfolding narrow_inv_def by blast+
  let ?lc = "if k = 0 then None else Some (label ! (k - 1))"
  have item: "narrowed_upto label blank ?f j ! k = label ! k"
    using j kl kle by (simp add: narrowed_upto_nth)
  have item': "narrowed_upto label blank ?f k ! k = label ! k"
    using kl kle by (simp add: narrowed_upto_nth)
  have flush: "rewrite_run lib blank ?lc [j..<k] (narrowed_upto label blank ?f j)
               = narrowed_upto label blank ?f k"
    using rewrite_run_upto [OF kle j run first, of ?lc lib] by simp
  have step: "fold (narrow_step lib blank) [0..<Suc k] ?init
              = narrow_step lib blank k \<lparr>ns_label = narrowed_upto label blank ?f j,
                  ns_last_char = ?lc, ns_repeating = [j..<k]\<rparr>"
    by (simp add: st)
  let ?S = "\<lparr>ns_label = narrowed_upto label blank ?f j, ns_last_char = ?lc, ns_repeating = [j..<k]\<rparr>"
  show ?case
  proof (cases "?lc = Some (label ! k) \<and> label ! k \<noteq> blank")
    case True
    then have k0: "0 < k" and same: "label ! (k - 1) = label ! k" and nb: "label ! k \<noteq> blank"
      by (auto split: if_splits)
    have jk: "j < k" using blank j k0 same nb by (cases "j = k") auto
    have "narrow_step lib blank k ?S
          = \<lparr>ns_label = narrowed_upto label blank ?f j,
             ns_last_char = Some (label ! k), ns_repeating = [j..<Suc k]\<rparr>"
      using k0 same nb jk by (simp add: narrow_step_def item Let_def)
    then have A: "fold (narrow_step lib blank) [0..<Suc k] ?init
          = \<lparr>ns_label = narrowed_upto label blank ?f j,
             ns_last_char = (if Suc k = 0 then None else Some (label ! (Suc k - 1))),
             ns_repeating = [j..<Suc k]\<rparr>"
      by (simp only: step) simp
    have B: "\<forall>i. j \<le> i \<and> i < Suc k \<longrightarrow> label ! i = label ! (Suc k - 1) \<and> label ! i \<noteq> blank"
    proof (intro allI impI)
      fix i assume i: "j \<le> i \<and> i < Suc k"
      show "label ! i = label ! (Suc k - 1) \<and> label ! i \<noteq> blank"
      proof (cases "i = k")
        case True
        then show ?thesis using nb by simp
      next
        case False
        with i have "j \<le> i \<and> i < k" by linarith
        from run [rule_format, OF this] show ?thesis using same by simp
      qed
    qed
    have "narrow_inv label lib blank (Suc k) j"
      by (rule narrow_invI [OF _ A B]) (use jk first in simp_all)
    then show ?thesis ..
  next
    case False
    show ?thesis
    proof (cases "label ! k = blank")
      case True
      have "narrow_step lib blank k ?S
            = \<lparr>ns_label = narrowed_upto label blank ?f k,
               ns_last_char = Some (label ! k), ns_repeating = []\<rparr>"
      proof (cases "?lc = Some (label ! k)")
        case lceq: True
        then have k0: "k \<noteq> 0" and pb: "label ! (k - 1) = blank"
          using True by (auto split: if_splits)
        have "j = k"
        proof (rule ccontr)
          assume "j \<noteq> k"
          with j k0 have "j \<le> k - 1 \<and> k - 1 < k" by linarith
          from run [rule_format, OF this] show False using pb by simp
        qed
        then show ?thesis
          using lceq True flush by (simp add: narrow_step_def item' Let_def)
      next
        case lcne: False
        then show ?thesis
          using True flush by (simp add: narrow_step_def item Let_def)
      qed
      then have A0: "fold (narrow_step lib blank) [0..<Suc k] ?init
            = \<lparr>ns_label = narrowed_upto label blank ?f k,
               ns_last_char = Some (label ! k), ns_repeating = []\<rparr>"
        by (simp only: step)
      have "drop k label = label ! k # drop (Suc k) label"
        using kl by (simp add: Cons_nth_drop_Suc)
      then have "narrowed_upto label blank ?f k = narrowed_upto label blank ?f (Suc k)"
        using True by (simp add: narrowed_upto_def narrowed_frame_def)
      with A0 have A: "fold (narrow_step lib blank) [0..<Suc k] ?init
            = \<lparr>ns_label = narrowed_upto label blank ?f (Suc k),
               ns_last_char = (if Suc k = 0 then None else Some (label ! (Suc k - 1))),
               ns_repeating = [Suc k..<Suc k]\<rparr>"
        by simp
      have "narrow_inv label lib blank (Suc k) (Suc k)"
        by (rule narrow_invI [OF _ A]) (use True in simp_all)
      then show ?thesis ..
    next
      case nb: False
      with False have lcne: "?lc \<noteq> Some (label ! k)" by simp
      have "narrow_step lib blank k ?S
            = \<lparr>ns_label = narrowed_upto label blank ?f k,
               ns_last_char = Some (label ! k), ns_repeating = [k..<Suc k]\<rparr>"
        using lcne nb flush by (simp add: narrow_step_def item Let_def)
      then have A: "fold (narrow_step lib blank) [0..<Suc k] ?init
            = \<lparr>ns_label = narrowed_upto label blank ?f k,
               ns_last_char = (if Suc k = 0 then None else Some (label ! (Suc k - 1))),
               ns_repeating = [k..<Suc k]\<rparr>"
        by (simp only: step) simp
      have C: "k = 0 \<or> label ! (k - 1) \<noteq> label ! k"
        using lcne by (auto split: if_splits)
      have "narrow_inv label lib blank (Suc k) k"
        by (rule narrow_invI [OF _ A]) (use nb C in \<open>auto simp: less_Suc_eq\<close>)
      then show ?thesis ..
    qed
  qed
qed

lemma narrow_label_narrowed:
  "narrow_label label logit blank lib
   = map (narrowed_frame label blank (narrow_fill lib blank)) [0..<length label]"
proof -
  let ?f = "narrow_fill lib blank"
  let ?n = "length label"
  obtain j where inv: "narrow_inv label lib blank ?n j"
    using narrow_loop_invariant [OF order_refl] ..
  have j: "j \<le> ?n"
    and st: "fold (narrow_step lib blank) [0..<?n] \<lparr>ns_label = label, ns_last_char = None, ns_repeating = []\<rparr>
             = \<lparr>ns_label = narrowed_upto label blank ?f j,
                ns_last_char = (if ?n = 0 then None else Some (label ! (?n - 1))),
                ns_repeating = [j..<?n]\<rparr>"
    and run: "\<forall>i. j \<le> i \<and> i < ?n \<longrightarrow> label ! i = label ! (?n - 1) \<and> label ! i \<noteq> blank"
    and first: "j < ?n \<longrightarrow> j = 0 \<or> label ! (j - 1) \<noteq> label ! j"
    using inv unfolding narrow_inv_def by blast+
  have "narrow_label label logit blank lib
        = rewrite_run lib blank (if ?n = 0 then None else Some (label ! (?n - 1))) [j..<?n]
            (narrowed_upto label blank ?f j)"
    by (simp add: narrow_label_def st)
  also have "\<dots> = narrowed_upto label blank ?f ?n"
    using rewrite_run_upto [OF order_refl j run first] by simp
  finally show ?thesis by (simp add: narrowed_upto_def)
qed

lemma narrow_after_run:
  "x \<noteq> blank \<Longrightarrow>
   narrow_after blank fill (Some x) xs
   = replicate (length (takeWhile (\<lambda>y. y = x) xs)) fill
     @ narrow_after blank fill (Some x) (dropWhile (\<lambda>y. y = x) xs)"
  by (induction xs) auto

lemma narrow_after_fresh:
  "xs = [] \<or> prev \<noteq> Some (hd xs) \<or> hd xs = blank \<Longrightarrow>
   narrow_after blank fill prev xs = narrow_runs blank fill xs"
proof (induction blank fill xs arbitrary: prev rule: narrow_runs.induct)
  case (1 blank fill)
  then show ?case by simp
next
  case (2 blank fill x xs)
  show ?case
  proof (cases "x = blank")
    case True
    have "narrow_after blank fill (Some x) xs = narrow_runs blank fill xs"
    proof (cases xs)
      case Nil
      then show ?thesis by simp
    next
      case (Cons y ys)
      show ?thesis
      proof (cases "y = blank")
        case yb: True
        then show ?thesis using "2.IH"(1) [OF True, of "Some x"] Cons by simp
      next
        case False
        then show ?thesis using "2.IH"(1) [OF True, of "Some x"] Cons True by simp
      qed
    qed
    then show ?thesis using True by simp
  next
    case False
    let ?d = "dropWhile (\<lambda>y. y = x) xs"
    have hd: "?d = [] \<or> Some x \<noteq> Some (hd ?d) \<or> hd ?d = blank"
    proof (cases "?d = []")
      case True
      then show ?thesis by (rule disjI1)
    next
      case False
      then have "hd ?d \<noteq> x" by (rule hd_dropWhile)
      then show ?thesis by simp
    qed
    have "narrow_after blank fill (Some x) ?d = narrow_runs blank fill ?d"
      by (rule "2.IH"(2) [OF False hd])
    moreover have "prev \<noteq> Some x" using "2.prems" False by simp
    ultimately show ?thesis
      using False narrow_after_run [OF False, of fill xs] by simp
  qed
qed

lemma narrow_after_nth:
  "i < length xs \<Longrightarrow>
   narrow_after blank fill prev xs ! i
   = (if (if i = 0 then prev else Some (xs ! (i - 1))) = Some (xs ! i) \<and> xs ! i \<noteq> blank
      then fill else xs ! i)"
proof (induction xs arbitrary: i prev)
  case Nil
  then show ?case by simp
next
  case (Cons x xs)
  show ?case
  proof (cases i)
    case 0
    then show ?thesis by simp
  next
    case (Suc n)
    with Cons.prems have n: "n < length xs" by simp
    show ?thesis using Cons.IH [OF n, of "Some x"] Suc by (cases n) simp_all
  qed
qed

lemma narrow_after_length: "length (narrow_after blank fill prev xs) = length xs"
  by (induction xs arbitrary: prev) simp_all

lemma narrowed_frames_runs:
  "map (narrowed_frame label blank fill) [0..<length label] = narrow_runs blank fill label"
proof -
  have "map (narrowed_frame label blank fill) [0..<length label] = narrow_after blank fill None label"
  proof (rule nth_equalityI)
    show "length (map (narrowed_frame label blank fill) [0..<length label])
          = length (narrow_after blank fill None label)"
      by (simp add: narrow_after_length)
  next
    fix i assume "i < length (map (narrowed_frame label blank fill) [0..<length label])"
    then have i: "i < length label" by simp
    show "map (narrowed_frame label blank fill) [0..<length label] ! i
          = narrow_after blank fill None label ! i"
      using i by (auto simp: narrow_after_nth narrowed_frame_def)
  qed
  also have "\<dots> = narrow_runs blank fill label"
    by (rule narrow_after_fresh) simp
  finally show ?thesis .
qed

text \<open>
  Claim C6. \<open>narrow_label\<close> keeps the first frame of every maximal run of consecutive,
  identical, non-blank labels and rewrites the other frames of the run to the blank
  index \<open>idx_of_last\<close>, or to \<open>idx_of_last - 1\<close> in liberal mode; blank frames are kept;
  the length of the path does not change; the path \<open>[2,2,2,5,1,1,5,5]\<close> with blank index 5
  becomes \<open>[2,5,5,5,1,5,5,5]\<close>.
\<close>

theorem narrow_label_runs:
  "narrow_label label logit idx_of_last on_one_liberal
     = narrow_runs idx_of_last (if on_one_liberal then idx_of_last - 1 else idx_of_last) label
   \<and> length (narrow_label label logit idx_of_last on_one_liberal) = length label
   \<and> narrow_label [2, 2, 2, 5, 1, 1, 5, 5] logit 5 False = [2, 5, 5, 5, 1, 5, 5, 5]"
proof -
  have eq: "narrow_label l g b m = narrow_runs b (if m then b - 1 else b) l" for l g b m
    using narrow_label_narrowed [of l g b m] narrowed_frames_runs [of l b "narrow_fill m b"]
    by (simp add: narrow_fill_def)
  have len: "length (narrow_label label logit idx_of_last on_one_liberal) = length label"
    by (simp add: narrow_label_narrowed)
  have ex: "narrow_label [2, 2, 2, 5, 1, 1, 5, 5] logit 5 False = [2, 5, 5, 5, 1, 5, 5, 5]"
    by (simp add: eq)
  show ?thesis by (intro conjI eq len ex)
qed

theorem narrow_label_runs_witness:
  "narrow_label [2, 2, 3, 5, 3, 3, 3] () 5 True = [2, 4, 3, 5, 3, 4, 4]
   \<and> length (narrow_label [2, 2, 3, 5, 3, 3, 3] () 5 True) = 7"
  using narrow_label_runs [of "[2, 2, 3, 5, 3, 3, 3]" "()" 5 True] by simp


section \<open>Properties of the boundary walk\<close>

lemma scan_aligned_frames:
  "scan_aligned blank L a xs s = scan_frames L (nonblank_frames blank a xs) s"
  by (induction blank L a xs s rule: scan_aligned.induct) simp_all

lemma scan_frames_final:
  "final s \<Longrightarrow> global_letter_counter s < local_letter_counter s \<Longrightarrow>
   scan_frames L fs s =
     (case fs of [] \<Rightarrow> s
      | a # _ \<Rightarrow> s\<lparr>end_of_space := 4 * a,
                   global_letter_counter := local_letter_counter s,
                   last_flag := False\<rparr>)"
  by (cases fs) simp_all

lemma scan_frames_word:
  "\<not> final s \<Longrightarrow> global_letter_counter s < local_letter_counter s \<Longrightarrow>
   local_letter_counter s + int d = global_letter_counter s + L \<Longrightarrow>
   scan_frames L fs s =
     (if length fs \<le> d then s\<lparr>local_letter_counter := local_letter_counter s + int (length fs)\<rparr>
      else if length fs = d + 1 then
        s\<lparr>string_width := 4 * fs ! d - string_hpos s, final := True,
          local_letter_counter := local_letter_counter s + int d + 1\<rparr>
      else
        s\<lparr>string_width := 4 * fs ! d - string_hpos s, final := True,
          local_letter_counter := local_letter_counter s + int d + 1,
          end_of_space := 4 * fs ! (d + 1),
          global_letter_counter := local_letter_counter s + int d + 1,
          last_flag := False\<rparr>)"
proof (induction fs arbitrary: s d)
  case Nil
  then show ?case by simp
next
  case (Cons a fs)
  show ?case
  proof (cases d)
    case 0
    with Cons.prems have eq: "local_letter_counter s - global_letter_counter s = L" by simp
    let ?s' = "s\<lparr>string_width := 4 * a - string_hpos s, final := True,
                 local_letter_counter := local_letter_counter s + 1\<rparr>"
    have "scan_frames L (a # fs) s = scan_frames L fs ?s'"
      using Cons.prems eq by simp
    also have "\<dots> = (case fs of [] \<Rightarrow> ?s'
                      | b # _ \<Rightarrow> ?s'\<lparr>end_of_space := 4 * b,
                           global_letter_counter := local_letter_counter ?s',
                           last_flag := False\<rparr>)"
      using Cons.prems by (intro scan_frames_final) simp_all
    finally show ?thesis using 0 by (cases fs) simp_all
  next
    case (Suc d')
    with Cons.prems have ne: "local_letter_counter s - global_letter_counter s \<noteq> L" by simp
    let ?s' = "s\<lparr>local_letter_counter := local_letter_counter s + 1\<rparr>"
    have "scan_frames L (a # fs) s = scan_frames L fs ?s'"
      using Cons.prems ne by simp
    moreover have "\<not> final ?s'" "global_letter_counter ?s' < local_letter_counter ?s'"
      "local_letter_counter ?s' + int d' = global_letter_counter ?s' + L"
      using Cons.prems Suc by simp_all
    ultimately show ?thesis
      using Cons.IH [of ?s' d'] Suc by (simp add: algebra_simps)
  qed
qed

lemma scan_frames_skip:
  "\<not> final s \<Longrightarrow> local_letter_counter s + int e = global_letter_counter s \<Longrightarrow>
   scan_frames L fs s =
     (if length fs \<le> e then s\<lparr>local_letter_counter := local_letter_counter s + int (length fs)\<rparr>
      else scan_frames L (drop (e + 1) fs)
             (s\<lparr>string_hpos := 4 * fs ! e,
                local_letter_counter := global_letter_counter s + 1\<rparr>))"
proof (induction fs arbitrary: s e)
  case Nil
  then show ?case by simp
next
  case (Cons a fs)
  show ?case
  proof (cases e)
    case 0
    then show ?thesis using Cons.prems by simp
  next
    case (Suc e')
    let ?s' = "s\<lparr>local_letter_counter := local_letter_counter s + 1\<rparr>"
    have "scan_frames L (a # fs) s = scan_frames L fs ?s'"
      using Cons.prems Suc by simp
    moreover have "\<not> final ?s'" "local_letter_counter ?s' + int e' = global_letter_counter ?s'"
      using Cons.prems Suc by simp_all
    ultimately show ?thesis
      using Cons.IH [of ?s' e'] Suc by (simp add: algebra_simps)
  qed
qed


text \<open>
  Claim C1, as amended. A word of the transcription is scanned with \<open>global\<close> non-blank
  frames consumed by the words before it; \<open>nb\<close> lists the indices of the non-blank
  frames of the narrowed path. The word starts at column 4 times the frame \<open>nb ! global\<close>.
  Its end column is 4 times the index of the first non-blank frame before which
  \<open>global\<close> plus the word's length non-blank frames were seen, that is \<open>nb ! (global + L)\<close>,
  provided one more non-blank frame follows (which then starts the next word, and the
  consumed count becomes \<open>global + L + 1\<close>); otherwise the word is the last one and ends at
  column 4 times the number of frames.
\<close>

theorem walk_word_boundaries:
  assumes w: "word \<noteq> []" and g: "0 \<le> global"
  shows "let w = walk_word blank aligned word global;
             nb = nonblank_frames blank 0 aligned;
             n = nat global; L = length word
         in string_hpos w = (if n < length nb then 4 * nb ! n else 0)
          \<and> (if n + L + 1 < length nb
             then string_width w = 4 * nb ! (n + L) - string_hpos w
                \<and> end_of_space w = 4 * nb ! (n + L + 1)
                \<and> global_letter_counter w = global + int L + 1
                \<and> \<not> last_flag w
             else string_width w = 4 * int (length aligned) - string_hpos w
                \<and> end_of_space w = 0
                \<and> global_letter_counter w = global
                \<and> last_flag w)"
proof -
  let ?nb = "nonblank_frames blank 0 aligned"
  let ?n = "nat global"
  let ?L = "length word"
  let ?s0 = "\<lparr>local_letter_counter = 0, global_letter_counter = global,
              string_width = 0, string_hpos = 0, end_of_space = 0,
              final = False, last_flag = True\<rparr>"
  let ?r = "scan_frames (int ?L) ?nb ?s0"
  have L: "0 < ?L" using w by simp
  have ww: "walk_word blank aligned word global
            = (if last_flag ?r then ?r\<lparr>string_width := 4 * int (length aligned) - string_hpos ?r\<rparr> else ?r)"
    by (simp add: walk_word_def scan_aligned_frames Let_def)
  have skip: "?r = (if length ?nb \<le> ?n then ?s0\<lparr>local_letter_counter := local_letter_counter ?s0 + int (length ?nb)\<rparr>
                    else scan_frames (int ?L) (drop (?n + 1) ?nb)
                           (?s0\<lparr>string_hpos := 4 * ?nb ! ?n,
                                local_letter_counter := global_letter_counter ?s0 + 1\<rparr>))"
    using g by (intro scan_frames_skip) simp_all
  show ?thesis
  proof (cases "length ?nb \<le> ?n")
    case True
    then have "?r = ?s0\<lparr>local_letter_counter := int (length ?nb)\<rparr>"
      using skip by simp
    then show ?thesis using True by (simp add: ww Let_def)
  next
    case False
    let ?s1 = "?s0\<lparr>string_hpos := 4 * ?nb ! ?n, local_letter_counter := global + 1\<rparr>"
    let ?fs = "drop (?n + 1) ?nb"
    let ?d = "?L - 1"
    have r1: "?r = scan_frames (int ?L) ?fs ?s1"
      using skip False by simp
    have word: "scan_frames (int ?L) ?fs ?s1 =
     (if length ?fs \<le> ?d then ?s1\<lparr>local_letter_counter := local_letter_counter ?s1 + int (length ?fs)\<rparr>
      else if length ?fs = ?d + 1 then
        ?s1\<lparr>string_width := 4 * ?fs ! ?d - string_hpos ?s1, final := True,
          local_letter_counter := local_letter_counter ?s1 + int ?d + 1\<rparr>
      else
        ?s1\<lparr>string_width := 4 * ?fs ! ?d - string_hpos ?s1, final := True,
          local_letter_counter := local_letter_counter ?s1 + int ?d + 1,
          end_of_space := 4 * ?fs ! (?d + 1),
          global_letter_counter := local_letter_counter ?s1 + int ?d + 1,
          last_flag := False\<rparr>)"
    proof (intro scan_frames_word)
      have "1 + int (?L - 1) = int ?L" using L by linarith
      then show "local_letter_counter ?s1 + int ?d = global_letter_counter ?s1 + int ?L" by simp
    qed simp_all
    have len: "length ?fs = length ?nb - ?n - 1" by simp
    consider "length ?nb \<le> ?n + ?L" | "length ?nb = ?n + ?L + 1" | "?n + ?L + 1 < length ?nb"
      by linarith
    then show ?thesis
    proof cases
      case 1
      then have "length ?fs \<le> ?d" using L False by simp
      then have "?r = ?s1\<lparr>local_letter_counter := local_letter_counter ?s1 + int (length ?fs)\<rparr>"
        using r1 word by simp
      then show ?thesis using 1 False by (simp add: ww Let_def)
    next
      case 2
      then have "length ?fs = ?d + 1" using L by simp
      then have "?r = ?s1\<lparr>string_width := 4 * ?fs ! ?d - string_hpos ?s1, final := True,
          local_letter_counter := local_letter_counter ?s1 + int ?d + 1\<rparr>"
        using r1 word by simp
      then show ?thesis using 2 False by (simp add: ww Let_def)
    next
      case 3
      then have "\<not> length ?fs \<le> ?d" "length ?fs \<noteq> ?d + 1" using L by simp_all
      then have r: "?r = ?s1\<lparr>string_width := 4 * ?fs ! ?d - string_hpos ?s1, final := True,
          local_letter_counter := local_letter_counter ?s1 + int ?d + 1,
          end_of_space := 4 * ?fs ! (?d + 1),
          global_letter_counter := local_letter_counter ?s1 + int ?d + 1,
          last_flag := False\<rparr>"
        using r1 word by simp
      have a1: "?n + 1 + ?d = ?n + ?L" and a2: "?n + 1 + (?d + 1) = ?n + ?L + 1"
        using L by linarith+
      have i1: "?fs ! ?d = ?nb ! (?n + ?L)"
        using 3 by (simp only: nth_drop a1)
      have i2: "?fs ! (?d + 1) = ?nb ! (?n + ?L + 1)"
        using 3 by (simp only: nth_drop a2)
      have a3: "1 + int (?L - Suc 0) = int ?L" using L by linarith
      show ?thesis using 3 False unfolding Let_def ww r i1 i2 by (simp add: a3)
    qed
  qed
qed

theorem walk_word_boundaries_witness:
  "''ab'' \<noteq> [] \<and> (0::int) \<le> 0
   \<and> string_hpos (walk_word 3 [0, 3, 3, 1, 3, 2, 3, 0, 3, 3, 1, 3] ''ab'' 0) = 0
   \<and> string_width (walk_word 3 [0, 3, 3, 1, 3, 2, 3, 0, 3, 3, 1, 3] ''ab'' 0) = 20
   \<and> end_of_space (walk_word 3 [0, 3, 3, 1, 3, 2, 3, 0, 3, 3, 1, 3] ''ab'' 0) = 28
   \<and> global_letter_counter (walk_word 3 [0, 3, 3, 1, 3, 2, 3, 0, 3, 3, 1, 3] ''ab'' 0) = 3"
  using walk_word_boundaries [of "''ab''" 0 3 "[0, 3, 3, 1, 3, 2, 3, 0, 3, 3, 1, 3]"]
  by (simp add: Let_def)

text \<open>
  The example of the specification: alphabet \<open>{h:0, i:1}\<close>, blank index 2, transcription
  \<open>hi\<close>, narrowed path \<open>[0,2,2,1,2,2,2,2]\<close>. At frame 3 one non-blank frame has
  been counted, not two, so the word is not completed there; no third non-blank frame
  exists, and the word extends to the end of the path: columns \<open>[0,32)\<close>, not \<open>[0,12)\<close>.
\<close>

theorem walk_word_hi_counterexample:
  "string_hpos (walk_word 2 [0, 2, 2, 1, 2, 2, 2, 2] ''hi'' 0) = 0
   \<and> string_width (walk_word 2 [0, 2, 2, 1, 2, 2, 2, 2] ''hi'' 0) = 32
   \<and> string_hpos (walk_word 2 [0, 2, 2, 1, 2, 2, 2, 2] ''hi'' 0)
       + string_width (walk_word 2 [0, 2, 2, 1, 2, 2, 2, 2] ''hi'' 0) \<noteq> 12"
  by (simp add: walk_word_def)


section \<open>Legacy height decoding\<close>








lemma nat_of_digits_Nil [simp]: "nat_of_digits [] = 0"
  by (simp add: nat_of_digits_def)









section \<open>Reading ALTO from a string\<close>

text \<open>
  Claim C9. \<open>from_altoxml_string\<close> passes the byte stream of its argument to
  \<open>from_pagexml\<close>, as \<open>from_pagexml_string\<close> does; \<open>from_altoxml\<close> is not involved. A
  document whose root has no child \<open>Page\<close>, as every ALTO document (its root has the
  children \<open>Description\<close> and \<open>Layout\<close>), is therefore rejected by the PAGE reader with an
  \<open>IndexError\<close>, before the layout is touched.
\<close>

theorem from_altoxml_string_delegates:
  "from_altoxml_string parse self s = from_pagexml parse self (BytesIO s)
   \<and> from_altoxml_string parse self s = from_pagexml_string parse self s
   \<and> (parse (BytesIO s) = Inr t \<longrightarrow> element_schema t = Inr schema \<longrightarrow>
        findall t (schema @ ''Page'') = [] \<longrightarrow>
        from_altoxml_string parse self s = (self, Some IndexError))"
  by (simp add: from_altoxml_string_def from_pagexml_string_def from_pagexml_def
      from_pagexml_tree_def first_item_def)

theorem from_altoxml_string_delegates_witness:
  "from_altoxml_string parse_alto_example new_PageLayout ''<alto/>'' = (new_PageLayout, Some IndexError)
   \<and> snd (from_altoxml parse_alto_example new_PageLayout ''<alto/>'') = None"
proof -
  have a: "parse_alto_example (BytesIO ''<alto/>'') = Inr alto_example"
    by (simp add: parse_alto_example_def)
  have b: "element_schema alto_example = Inr ''{http://www.loc.gov/standards/alto/ns-v2#}''"
    by code_simp
  have c: "findall alto_example (''{http://www.loc.gov/standards/alto/ns-v2#}'' @ ''Page'') = []"
    by code_simp
  have d: "snd (from_altoxml parse_alto_example new_PageLayout ''<alto/>'') = None"
    by code_simp
  have "from_altoxml_string parse_alto_example new_PageLayout ''<alto/>''
        = (new_PageLayout, Some IndexError)"
    using from_altoxml_string_delegates [of parse_alto_example new_PageLayout "''<alto/>''"
        alto_example "''{http://www.loc.gov/standards/alto/ns-v2#}''"] a b c
    by blast
  then show ?thesis using d by (rule conjI)
qed

section \<open>Heights read from ALTO\<close>

lemma textline_from_alto_heights:
  assumes "textline_from_alto line schema = Inr l"
  shows "\<exists>hpos baseline width height vpos.
           int_attrib line ''BASELINE'' = Inr baseline \<and> int_attrib line ''HEIGHT'' = Inr height
         \<and> int_attrib line ''VPOS'' = Inr vpos
         \<and> line_heights l = Some [of_int (vpos + height - baseline), of_int (baseline - vpos)]"
  using assms unfolding textline_from_alto_def bind_err_def Let_def
  by (auto split: sum.splits)

text \<open>
  Claim C2, evaluated. The line of \<open>alto_example\<close> has 40 pixels above the baseline
  (\<open>BASELINE - VPOS\<close>) and 10 below (\<open>VPOS + HEIGHT - BASELINE\<close>); \<open>from_altoxml\<close> stores the
  pair \<open>[10, 40]\<close>: the extent below the baseline first, the extent above it second.
\<close>

theorem from_altoxml_heights_below_first:
  "map (\<lambda>r. map line_heights (region_lines r))
       (regions (fst (from_altoxml parse_alto_example new_PageLayout ''example.xml'')))
   = [[Some [10, 40]]]"
  by code_simp


section \<open>Properties of the ALTO export\<close>

lemma bind_err_Inl [simp]: "bind_err (Inl e) f = Inl e"
  by (simp add: bind_err_def)

lemma bind_err_Inr [simp]: "bind_err (Inr x) f = f x"
  by (simp add: bind_err_def)

lemma bind_err_fails: "m = Inl e \<Longrightarrow> \<exists>e'. bind_err m f = Inl e'"
  by simp

lemma column_None [simp]: "column sel None = Inl IndexError"
  by (simp add: column_def)

subsection \<open>Lines without transcription\<close>

lemma lines_to_alto_transcribed:
  "lines_to_alto fa crop ls
   = map_err (\<lambda>line. textline_to_alto fa crop line (transcription_text line)) (filter transcribed ls)"
proof (induction ls)
  case Nil
  then show ?case by simp
next
  case (Cons l ls)
  show ?case
  proof (cases "line_transcription l")
    case None
    then show ?thesis using Cons.IH by (simp add: transcribed_def)
  next
    case (Some t)
    then show ?thesis using Cons.IH
      by (cases "textline_to_alto fa crop l t")
         (auto simp: transcribed_def transcription_text_def bind_err_def split: sum.splits)
  qed
qed

lemma lines_to_alto_filter:
  "lines_to_alto fa crop (filter transcribed ls) = lines_to_alto fa crop ls"
  by (simp add: lines_to_alto_transcribed)

lemma blocks_to_alto_filter:
  "blocks_to_alto fa crop (map (\<lambda>r. r\<lparr>region_lines := filter transcribed (region_lines r)\<rparr>) rs) ps
   = blocks_to_alto fa crop rs ps"
  by (induction rs arbitrary: ps) (simp_all add: lines_to_alto_filter Let_def)

lemma map_err_length: "map_err f xs = Inr ys \<Longrightarrow> length ys = length xs"
  by (induction xs arbitrary: ys) (auto split: sum.splits)

text \<open>
  Claim C10. The export does not depend on the lines whose transcription is \<open>None\<close> or
  empty: removing them from the layout gives the same result, the \<open>TextLine\<close> elements
  of a block are those of its other lines, in order, and there are as many.
\<close>

theorem to_altoxml_skips_untranscribed:
  "to_altoxml_tree fa crop self = to_altoxml_tree fa crop (drop_untranscribed self)
   \<and> lines_to_alto fa crop ls
       = map_err (\<lambda>line. textline_to_alto fa crop line (transcription_text line)) (filter transcribed ls)
   \<and> (\<forall>elems. lines_to_alto fa crop ls = Inr elems \<longrightarrow> length elems = length (filter transcribed ls))"
proof (intro conjI allI impI)
  have a: "page_id (drop_untranscribed self) = page_id self"
    and b: "page_size (drop_untranscribed self) = page_size self"
    and c: "regions (drop_untranscribed self)
            = map (\<lambda>r. r\<lparr>region_lines := filter transcribed (region_lines r)\<rparr>) (regions self)"
    by (simp_all add: drop_untranscribed_def)
  show "to_altoxml_tree fa crop self = to_altoxml_tree fa crop (drop_untranscribed self)"
    by (simp only: to_altoxml_tree_def a b c blocks_to_alto_filter)
  show "lines_to_alto fa crop ls
        = map_err (\<lambda>line. textline_to_alto fa crop line (transcription_text line)) (filter transcribed ls)"
    by (rule lines_to_alto_transcribed)
  fix elems assume "lines_to_alto fa crop ls = Inr elems"
  then show "length elems = length (filter transcribed ls)"
    by (simp add: lines_to_alto_transcribed map_err_length)
qed

theorem to_altoxml_skips_untranscribed_witness:
  "lines_to_alto example_force_align example_get_crop_inputs
     [hi_line\<lparr>line_transcription := None, line_baseline := None\<rparr>,
      hi_line\<lparr>line_transcription := Some '''', line_logits := None\<rparr>] = Inr []
   \<and> to_altoxml_tree example_force_align example_get_crop_inputs
       (page_of_line (hi_line\<lparr>line_transcription := None\<rparr>))
     = to_altoxml_tree example_force_align example_get_crop_inputs
         (drop_untranscribed (page_of_line (hi_line\<lparr>line_transcription := None\<rparr>)))"
proof -
  have f: "filter transcribed [hi_line\<lparr>line_transcription := None, line_baseline := None\<rparr>,
      hi_line\<lparr>line_transcription := Some '''', line_logits := None\<rparr>] = []"
    by (simp add: transcribed_def)
  note T = to_altoxml_skips_untranscribed [of example_force_align example_get_crop_inputs
        "page_of_line (hi_line\<lparr>line_transcription := None\<rparr>)"
        "[hi_line\<lparr>line_transcription := None, line_baseline := None\<rparr>,
          hi_line\<lparr>line_transcription := Some '''', line_logits := None\<rparr>]"]
  have 1: "lines_to_alto example_force_align example_get_crop_inputs
     [hi_line\<lparr>line_transcription := None, line_baseline := None\<rparr>,
      hi_line\<lparr>line_transcription := Some '''', line_logits := None\<rparr>] = Inr []"
    unfolding T [THEN conjunct2, THEN conjunct1] f by simp
  show ?thesis
    by (rule conjI [OF 1 T [THEN conjunct1]])
qed

subsection \<open>Lines without baseline, alphabet or logits\<close>

lemma column_cases: "column sel p = Inl IndexError \<or> (\<exists>v. column sel p = Inr v)"
  by (simp add: column_def split: option.splits)

lemma column_Some: "ps \<noteq> [] \<Longrightarrow> column sel (Some ps) = Inr (map sel ps)"
  by (simp add: column_def)

lemma char_to_num_cases:
  "char_to_num cs c = Inl KeyError \<or> (\<exists>i. char_to_num cs c = Inr i)"
  by (simp add: char_to_num_def split: option.splits)

lemma map_err_char_to_num_cases:
  "map_err (char_to_num cs) t = Inl KeyError \<or> (\<exists>v. map_err (char_to_num cs) t = Inr v)"
proof (induction t)
  case Nil
  then show ?case by simp
next
  case (Cons c t)
  show ?case
    using char_to_num_cases [of cs c] Cons.IH by auto
qed

lemma char_to_num_member:
  assumes "c \<in> set cs"
  shows "\<exists>i. char_to_num cs c = Inr i"
proof -
  have "c \<in> fst ` set (rev (zip cs [0..<length cs]))"
    using assms by (simp add: image_iff) (metis fst_conv in_set_impl_in_set_zip1 length_upt minus_nat.diff_0)
  then have "map_of (rev (zip cs [0..<length cs])) c \<noteq> None"
    by (simp add: map_of_eq_None_iff)
  then show ?thesis by (auto simp: char_to_num_def)
qed

lemma map_err_char_to_num_members:
  "set t \<subseteq> set cs \<Longrightarrow> \<exists>v. map_err (char_to_num cs) t = Inr v"
proof (induction t)
  case Nil
  then show ?case by simp
next
  case (Cons c t)
  then obtain i v where "char_to_num cs c = Inr i" "map_err (char_to_num cs) t = Inr v"
    using char_to_num_member [of c cs] by auto
  then show ?case by simp
qed

lemma get_dense_logits_None: "line_logits line = None \<Longrightarrow> get_dense_logits line z = Inl AttributeError"
  by (simp add: get_dense_logits_def)

lemma textline_to_alto_no_baseline:
  "line_baseline line = None \<Longrightarrow> textline_to_alto fa crop line t = Inl IndexError"
  by (simp add: textline_to_alto_def)

lemma textline_to_alto_no_characters:
  assumes "line_characters line = None"
  shows "textline_to_alto fa crop line t = Inl IndexError \<or> textline_to_alto fa crop line t = Inl TypeError"
  using column_cases [of snd "line_baseline line"] column_cases [of snd "line_polygon line"]
    column_cases [of fst "line_polygon line"] assms
  by (auto simp: textline_to_alto_def Let_def)

lemma textline_to_alto_no_logits:
  assumes "line_logits line = None"
  shows "textline_to_alto fa crop line t \<in> {Inl IndexError, Inl TypeError, Inl KeyError, Inl AttributeError}"
proof (cases "line_characters line")
  case None
  then show ?thesis using textline_to_alto_no_characters [of line fa crop t] by auto
next
  case (Some cs)
  show ?thesis
    using column_cases [of snd "line_baseline line"] column_cases [of snd "line_polygon line"]
      column_cases [of fst "line_polygon line"] map_err_char_to_num_cases [of cs t]
      get_dense_logits_None [OF assms]
    by (auto simp: textline_to_alto_def Let_def Some)
qed

lemma map_err_fails:
  "x \<in> set xs \<Longrightarrow> f x = Inl e \<Longrightarrow> \<exists>e'. map_err f xs = Inl e'"
  by (induction xs) (auto split: sum.splits)

lemma lines_to_alto_fails:
  assumes "line \<in> set ls" "line_transcription line = Some t" "t \<noteq> []"
    and "textline_to_alto fa crop line t = Inl e"
  shows "\<exists>e'. lines_to_alto fa crop ls = Inl e'"
proof -
  have "line \<in> set (filter transcribed ls)"
    using assms by (simp add: transcribed_def)
  moreover have "textline_to_alto fa crop line (transcription_text line) = Inl e"
    using assms by (simp add: transcription_text_def)
  ultimately show ?thesis
    unfolding lines_to_alto_transcribed by (rule map_err_fails)
qed

lemma blocks_to_alto_fails:
  "r \<in> set rs \<Longrightarrow> lines_to_alto fa crop (region_lines r) = Inl e \<Longrightarrow>
   \<exists>e'. blocks_to_alto fa crop rs ps = Inl e'"
proof (induction rs arbitrary: ps)
  case Nil
  then show ?case by simp
next
  case (Cons b rs)
  show ?case
  proof (cases "column snd (Some (region_polygon b))")
    case (Inl a)
    then show ?thesis by simp
  next
    case ys: (Inr ys)
    show ?thesis
    proof (cases "column fst (Some (region_polygon b))")
      case (Inl a)
      then show ?thesis using ys by simp
    next
      case xs: (Inr xs)
      show ?thesis
      proof (cases "lines_to_alto fa crop (region_lines b)")
        case (Inl a)
        then show ?thesis using ys xs by (simp add: Let_def)
      next
        case (Inr tl)
        with Cons.prems have "r \<in> set rs" by auto
        from Cons.IH [OF this Cons.prems(2)]
        have "\<exists>e'. blocks_to_alto fa crop rs ps' = Inl e'" for ps' .
        then show ?thesis
          using ys xs Inr by (simp add: Let_def) (metis bind_err_Inl)
      qed
    qed
  qed
qed

lemma to_altoxml_tree_fails:
  assumes "r \<in> set (regions self)" "lines_to_alto fa crop (region_lines r) = Inl e"
  shows "\<exists>e'. to_altoxml_tree fa crop self = Inl e'"
proof (cases "page_id self")
  case None
  then show ?thesis by (simp add: to_altoxml_tree_def)
next
  case (Some name)
  obtain e' where "blocks_to_alto fa crop (regions self)
      \<lparr>print_space_height = 0, print_space_width = 0,
       print_space_vpos = of_int (fst (page_size self)),
       print_space_hpos = of_int (snd (page_size self))\<rparr> = Inl e'"
    using blocks_to_alto_fails [OF assms] by blast
  then show ?thesis by (simp add: to_altoxml_tree_def Some Let_def)
qed

text \<open>
  Claim C3, as amended. A line with a non-empty transcription that has no baseline, no
  alphabet or no logits makes the export of the page fail: no document is returned.
  The conversion of the line fails with the error of the first operation that meets the
  missing value: \<open>IndexError\<close> for indexing the missing baseline (or polygon),
  \<open>TypeError\<close> for \<open>len\<close> of the missing alphabet, \<open>AttributeError\<close> for \<open>toarray\<close> of the
  missing logits (\<open>KeyError\<close> before that, if a character of the transcription is not in
  the alphabet). None of them is raised by a \<open>raise\<close> statement. The export is a function
  of the layout: the source assigns to no field of the page, its regions or its lines.
\<close>

theorem to_altoxml_missing_prerequisite:
  assumes "r \<in> set (regions self)" and "line \<in> set (region_lines r)"
    and "line_transcription line = Some t" and "t \<noteq> []"
    and "line_baseline line = None \<or> line_characters line = None \<or> line_logits line = None"
  shows "(\<exists>e. to_altoxml_tree fa crop self = Inl e)
       \<and> textline_to_alto fa crop line t \<in> {Inl IndexError, Inl TypeError, Inl KeyError, Inl AttributeError}
       \<and> (line_baseline line = None \<longrightarrow> textline_to_alto fa crop line t = Inl IndexError)
       \<and> (\<forall>b p. line_baseline line = Some b \<and> b \<noteq> [] \<and> line_polygon line = Some p \<and> p \<noteq> []
              \<and> line_characters line = None \<longrightarrow>
            textline_to_alto fa crop line t = Inl TypeError)
       \<and> (\<forall>b p cs. line_baseline line = Some b \<and> b \<noteq> [] \<and> line_polygon line = Some p \<and> p \<noteq> []
              \<and> line_characters line = Some cs \<and> set t \<subseteq> set cs \<and> line_logits line = None \<longrightarrow>
            textline_to_alto fa crop line t = Inl AttributeError)"
proof -
  have kinds: "textline_to_alto fa crop line t \<in> {Inl IndexError, Inl TypeError, Inl KeyError, Inl AttributeError}"
    using assms(5) textline_to_alto_no_baseline [of line fa crop t]
      textline_to_alto_no_characters [of line fa crop t]
      textline_to_alto_no_logits [of line fa crop t]
    by auto
  then obtain e where "textline_to_alto fa crop line t = Inl e" by auto
  from lines_to_alto_fails [OF assms(2,3,4) this]
  obtain e' where "lines_to_alto fa crop (region_lines r) = Inl e'" ..
  from to_altoxml_tree_fails [OF assms(1) this]
  have fails: "\<exists>e. to_altoxml_tree fa crop self = Inl e" .
  have nochars: "textline_to_alto fa crop line t = Inl TypeError"
    if "line_baseline line = Some b" "b \<noteq> []" "line_polygon line = Some p" "p \<noteq> []"
      "line_characters line = None" for b p
    using that by (simp add: textline_to_alto_def column_Some Let_def)
  have nologits: "textline_to_alto fa crop line t = Inl AttributeError"
    if pre: "line_baseline line = Some b" "b \<noteq> []" "line_polygon line = Some p" "p \<noteq> []"
      "line_characters line = Some cs" "line_logits line = None"
      and sub: "set t \<subseteq> set cs" for b p cs
  proof -
    obtain v where "map_err (char_to_num cs) t = Inr v"
      using map_err_char_to_num_members [OF sub] ..
    then show ?thesis
      using pre by (simp add: textline_to_alto_def column_Some Let_def get_dense_logits_None)
  qed
  show ?thesis
    using fails kinds textline_to_alto_no_baseline [of line fa crop t] nochars nologits
    by blast
qed

theorem to_altoxml_missing_prerequisite_witness:
  "to_altoxml_tree example_force_align example_get_crop_inputs
     (page_of_line (hi_line\<lparr>line_characters := None\<rparr>)) = Inl TypeError
   \<and> textline_to_alto example_force_align example_get_crop_inputs
       (hi_line\<lparr>line_characters := None\<rparr>) ''hi'' = Inl TypeError"
proof -
  let ?l = "hi_line\<lparr>line_characters := None\<rparr>"
  let ?r = "\<lparr>region_id = ''r1'', region_polygon = [(0, 0), (40, 0), (40, 30), (0, 30)],
             region_lines = [?l], region_transcription = None\<rparr>"
  have a: "?r \<in> set (regions (page_of_line ?l))" by (simp add: page_of_line_def)
  have b: "?l \<in> set (region_lines ?r)" by simp
  have c: "line_transcription ?l = Some ''hi''" by (simp add: hi_line_def)
  have d: "''hi'' \<noteq> []" by simp
  have e: "line_baseline ?l = None \<or> line_characters ?l = None \<or> line_logits ?l = None" by simp
  have f: "line_baseline ?l = Some [(0, 20), (32, 20)] \<and> [(0, 20), (32, 20)] \<noteq> ([] :: point list)
      \<and> line_polygon ?l = Some [(0, 5), (32, 5), (32, 25), (0, 25)]
      \<and> [(0, 5), (32, 5), (32, 25), (0, 25)] \<noteq> ([] :: point list) \<and> line_characters ?l = None"
    by (simp add: hi_line_def)
  note T = to_altoxml_missing_prerequisite [OF a b c d e, of example_force_align example_get_crop_inputs]
  have 1: "textline_to_alto example_force_align example_get_crop_inputs ?l ''hi'' = Inl TypeError"
    using T f by blast
  have 2: "to_altoxml_tree example_force_align example_get_crop_inputs (page_of_line ?l) = Inl TypeError"
    by code_simp
  show ?thesis using 1 2 by (rule conjI [rotated])
qed

text \<open>
  The line of the example without logits: the export fails with the \<open>AttributeError\<close> of
  \<open>None.toarray()\<close>, not with an exception raised for the missing prerequisite.
\<close>

theorem to_altoxml_missing_logits_counterexample:
  "to_altoxml_tree example_force_align example_get_crop_inputs
     (page_of_line (hi_line\<lparr>line_logits := None\<rparr>)) = Inl AttributeError"
  by code_simp

subsection \<open>Empty column ranges\<close>









section \<open>Properties of loading a snapshot\<close>


















end
